theory Spec2Isabelle
  imports Complex_Main "HOL-Library.Sublist"
begin

section \<open>Data model (types.ts)\<close>

text \<open>
  JavaScript numbers that carry coordinates, zoom factors and wheel deltas are modelled as
  \<^typ>\<open>real\<close>: arithmetic is exact and every value is finite. \<open>Date.now()\<close> is a
  natural number of milliseconds and is passed to the handlers that read it. Optional
  fields (\<open>x?: number\<close>) are options. Field names carry a prefix, since the source reuses
  \<open>x\<close>, \<open>y\<close> and \<open>id\<close> in several interfaces.
\<close>

datatype UserRole = SUPER_ADMIN | CREATOR | APPROVER | OBSERVER

datatype AssetType = IMAGE | VIDEO | DOCUMENT

datatype AssetStatus = PENDING | IN_PROGRESS | CHANGES_REQUESTED | APPROVED

datatype DrawingType = Pen | Box

datatype Tool = pointer | pen | box | hand

record Point =
  p_x :: real
  p_y :: real

record Rect =
  r_x :: real
  r_y :: real
  r_w :: real
  r_h :: real

record Drawing =
  d_type :: DrawingType
  d_points :: "Point list option"
  d_rect :: "Rect option"
  d_color :: string

datatype Comment = Comment
  (c_id: string)
  (c_userId: string)
  (c_text: string)
  (c_timestamp: nat)
  (c_resolved: bool)
  (c_x: "real option")
  (c_y: "real option")
  (c_videoTimestamp: "real option")
  (c_drawing: "Drawing option")
  (c_replies: "Comment list option")
  (c_isInternal: "bool option")

record AssetVersion =
  v_id :: string
  v_versionNumber :: int
  v_url :: string
  v_createdAt :: nat
  v_comments :: "Comment list"

text \<open>\<open>DOMRect\<close>, as far as the handlers read it.\<close>

record DOMRect =
  b_left :: real
  b_top :: real
  b_width :: real
  b_height :: real

section \<open>ReviewRoom: component state\<close>

text \<open>The props of \<open>ReviewRoom\<close> that the handlers read: \<open>asset.type\<close> and \<open>currentUser\<close>.\<close>

record RoomProps =
  assetType :: AssetType
  userId :: string
  userRole :: UserRole

text \<open>The \<open>useState\<close> cells and refs of \<open>ReviewRoom\<close> that the handlers below read or write.\<close>

record Room =
  activeVersionId :: string
  compareVersionId :: "string option"
  versions :: "AssetVersion list"
  isUploadModalOpen :: bool
  currentAssetStatus :: AssetStatus
  isCompareMode :: bool
  activeCommentId :: "string option"
  currentTimeRef :: real
  isVideoPlaying :: bool
  drawingTool :: Tool
  toolColor :: string
  zoom :: real
  pan :: Point

datatype error = TypeError

section \<open>Viewport transform (handleWheel, zoom buttons, pan)\<close>

text \<open>
  A wheel event: \<open>e.deltaY\<close>, \<open>e.clientX\<close>, \<open>e.clientY\<close>, and what
  \<open>viewportRef.current\<close> answers to \<open>getBoundingClientRect()\<close> (\<open>None\<close> when the ref is
  not attached).
\<close>

record WheelEvent =
  deltaY :: real
  w_clientX :: real
  w_clientY :: real
  viewportRect :: "DOMRect option"

definition handleWheel :: "Room \<Rightarrow> WheelEvent \<Rightarrow> Room" where
  "handleWheel st e =
     (if isCompareMode st then st
      else
        let scaleAmount = - deltaY e * 0.002;
            newZoom = min (max 0.1 (zoom st * (1 + scaleAmount))) 5
        in case viewportRect e of
             None \<Rightarrow> st
           | Some rect \<Rightarrow>
               let mouseX = w_clientX e - b_left rect;
                   mouseY = w_clientY e - b_top rect;
                   zoomRatio = newZoom / zoom st;
                   newPanX = mouseX - (mouseX - p_x (pan st)) * zoomRatio;
                   newPanY = mouseY - (mouseY - p_y (pan st)) * zoomRatio
               in st\<lparr>zoom := newZoom, pan := \<lparr>p_x = newPanX, p_y = newPanY\<rparr>\<rparr>)"

text \<open>The two zoom buttons and the reset button of the zoom controls.\<close>

definition zoomInButton :: "Room \<Rightarrow> Room" where
  "zoomInButton st = st\<lparr>zoom := min 5 (zoom st + 0.25)\<rparr>"

definition zoomOutButton :: "Room \<Rightarrow> Room" where
  "zoomOutButton st = st\<lparr>zoom := max 0.1 (zoom st - 0.25)\<rparr>"

definition handleResetZoom :: "Room \<Rightarrow> Room" where
  "handleResetZoom st = st\<lparr>zoom := 1, pan := \<lparr>p_x = 0, p_y = 0\<rparr>\<rparr>"

text \<open>
  \<open>handlePanMove\<close> while \<open>isPanningRef.current\<close> holds: the pointer delta \<open>(dx, dy)\<close> since
  the last position is added to the pan.
\<close>

definition handlePanMove :: "Room \<Rightarrow> real \<Rightarrow> real \<Rightarrow> Room" where
  "handlePanMove st dx dy = st\<lparr>pan := \<lparr>p_x = p_x (pan st) + dx, p_y = p_y (pan st) + dy\<rparr>\<rparr>"

datatype ZoomOp = Wheel WheelEvent | ZoomIn | ZoomOut | ResetZoom | PanMove real real

fun zoomOp :: "Room \<Rightarrow> ZoomOp \<Rightarrow> Room" where
  "zoomOp st (Wheel e) = handleWheel st e"
| "zoomOp st ZoomIn = zoomInButton st"
| "zoomOp st ZoomOut = zoomOutButton st"
| "zoomOp st ResetZoom = handleResetZoom st"
| "zoomOp st (PanMove dx dy) = handlePanMove st dx dy"

fun zoomOps :: "Room \<Rightarrow> ZoomOp list \<Rightarrow> Room" where
  "zoomOps st [] = st"
| "zoomOps st (op # ops) = zoomOps (zoomOp st op) ops"

text \<open>
  The content box is laid out inside a wrapper that fills the viewport and carries the style
  \<open>transform: translate(pan) scale(zoom)\<close> with \<open>transformOrigin: '0 0'\<close>. A box that the
  layout puts at offset \<open>(left, top)\<close> of the wrapper with extent \<open>(width, height)\<close> is
  therefore reported by \<open>getBoundingClientRect()\<close> at the viewport's corner plus
  \<open>pan + zoom * offset\<close>, with its extent scaled by \<open>zoom\<close>.
\<close>

definition containerBounds :: "DOMRect \<Rightarrow> DOMRect \<Rightarrow> real \<Rightarrow> Point \<Rightarrow> DOMRect" where
  "containerBounds viewport layout z p =
     \<lparr>b_left = b_left viewport + p_x p + z * b_left layout,
      b_top = b_top viewport + p_y p + z * b_top layout,
      b_width = z * b_width layout,
      b_height = z * b_height layout\<rparr>"

text \<open>The arithmetic of \<open>getPoint\<close> in AnnotationLayer.tsx on a given rectangle.\<close>

definition normalized :: "DOMRect \<Rightarrow> real \<Rightarrow> real \<Rightarrow> Point" where
  "normalized rect clientX clientY =
     \<lparr>p_x = ((clientX - b_left rect) / b_width rect) * 100,
      p_y = ((clientY - b_top rect) / b_height rect) * 100\<rparr>"

text \<open>
  The largest finite double lies below \<open>2 ^ 1024\<close>. A number whose exact value has at least
  that magnitude is stored by JavaScript as \<open>Infinity\<close> or \<open>-Infinity\<close>.
\<close>

definition overflows :: "real \<Rightarrow> bool" where
  "overflows v \<longleftrightarrow> 2 ^ 1024 \<le> \<bar>v\<bar>"

section \<open>ReviewRoom: versions, comments and status\<close>

text \<open>The decimal text of a number, as a template literal prints \<open>Date.now()\<close>.\<close>

fun decimal :: "nat \<Rightarrow> string" where
  "decimal n =
     (if n < 10 then [''0123456789'' ! n]
      else decimal (n div 10) @ [''0123456789'' ! (n mod 10)])"

declare decimal.simps [simp del]

text \<open>
  \<open>versions.find(v => v.id === activeVersionId) || versions[0]\<close>. \<open>None\<close> is
  \<open>undefined\<close>, the value of \<open>versions[0]\<close> on an empty array; reading a property of it
  throws a \<open>TypeError\<close>.
\<close>

definition activeVersion :: "Room \<Rightarrow> AssetVersion option" where
  "activeVersion st =
     (case find (\<lambda>v. v_id v = activeVersionId st) (versions st) of
        Some v \<Rightarrow> Some v
      | None \<Rightarrow> (case versions st of [] \<Rightarrow> None | v # _ \<Rightarrow> Some v))"

text \<open>\<open>activeVersion.comments.filter(c => !c.resolved)\<close>, whose length is \<open>openTasksCount\<close>.\<close>

definition openTasks :: "AssetVersion \<Rightarrow> Comment list" where
  "openTasks av = filter (\<lambda>c. \<not> c_resolved c) (v_comments av)"

definition openTasksCount :: "Room \<Rightarrow> error + nat" where
  "openTasksCount st =
     (case activeVersion st of
        None \<Rightarrow> Inl TypeError
      | Some av \<Rightarrow> Inr (length (openTasks av)))"

definition isDecisionMaker :: "RoomProps \<Rightarrow> bool" where
  "isDecisionMaker props \<longleftrightarrow> userRole props = APPROVER \<or> userRole props = SUPER_ADMIN"

definition canApprove :: "RoomProps \<Rightarrow> Room \<Rightarrow> error + bool" where
  "canApprove props st =
     (case openTasksCount st of
        Inl err \<Rightarrow> Inl err
      | Inr n \<Rightarrow> Inr (isDecisionMaker props \<and> (n = 0 \<or> userRole props = SUPER_ADMIN)))"

definition handleApprove :: "Room \<Rightarrow> Room" where
  "handleApprove st = st\<lparr>currentAssetStatus := APPROVED\<rparr>"

definition handleRequestChanges :: "Room \<Rightarrow> Room" where
  "handleRequestChanges st = st\<lparr>currentAssetStatus := CHANGES_REQUESTED\<rparr>"

text \<open>
  A click on the Approve button. The button is rendered only under \<open>isDecisionMaker\<close> and
  carries \<open>disabled={!canApprove}\<close> and \<open>onClick={handleApprove}\<close>; a button that is absent
  or disabled runs no handler.
\<close>

definition approve :: "RoomProps \<Rightarrow> Room \<Rightarrow> error + Room" where
  "approve props st =
     (case canApprove props st of
        Inl err \<Rightarrow> Inl err
      | Inr ok \<Rightarrow> Inr (if isDecisionMaker props \<and> ok then handleApprove st else st))"

text \<open>
  \<open>handleUploadNewVersion\<close>. The three readings of \<open>Date.now()\<close> (id, url, createdAt) are
  the arguments \<open>tId\<close>, \<open>tUrl\<close> and \<open>tCreated\<close>.
\<close>

definition handleUploadNewVersion :: "RoomProps \<Rightarrow> nat \<Rightarrow> nat \<Rightarrow> nat \<Rightarrow> Room \<Rightarrow> error + Room" where
  "handleUploadNewVersion props tId tUrl tCreated st =
     (case versions st of
        [] \<Rightarrow> Inl TypeError
      | v0 # _ \<Rightarrow>
          let nextVersionNumber = v_versionNumber v0 + 1;
              newVersion =
                \<lparr>v_id = ''v_'' @ decimal tId,
                 v_versionNumber = nextVersionNumber,
                 v_url = (if assetType props = VIDEO
                          then ''https://commondatastorage.googleapis.com/gtv-videos-bucket/sample/BigBuckBunny.mp4''
                          else ''https://picsum.photos/1200/800?random='' @ decimal tUrl),
                 v_createdAt = tCreated,
                 v_comments = []\<rparr>;
              newVersionsList = newVersion # versions st
          in Inr (st\<lparr>versions := newVersionsList,
                     activeVersionId := v_id newVersion,
                     isUploadModalOpen := False,
                     isCompareMode := False,
                     activeCommentId := None,
                     currentAssetStatus := PENDING,
                     compareVersionId := Some (v_id v0)\<rparr>))"

text \<open>The comment object that \<open>handleAddComment\<close> builds.\<close>

definition newComment ::
  "RoomProps \<Rightarrow> nat \<Rightarrow> nat \<Rightarrow> Room \<Rightarrow> real \<Rightarrow> real \<Rightarrow> Drawing option \<Rightarrow> Comment" where
  "newComment props tId tStamp st x y drawing =
     Comment (''c_'' @ decimal tId) (userId props) [] tStamp False (Some x) (Some y)
       (if assetType props = VIDEO then Some (currentTimeRef st) else None)
       drawing (Some []) (Some False)"

definition handleAddComment ::
  "RoomProps \<Rightarrow> nat \<Rightarrow> nat \<Rightarrow> Room \<Rightarrow> real \<Rightarrow> real \<Rightarrow> Drawing option \<Rightarrow> error + Room" where
  "handleAddComment props tId tStamp st x y drawing =
     (if isCompareMode st then Inr st
      else if userRole props = OBSERVER then Inr st
      else
        case activeVersion st of
          None \<Rightarrow> Inl TypeError
        | Some av \<Rightarrow>
            let st1 = (if assetType props = VIDEO \<and> isVideoPlaying st
                       then st\<lparr>isVideoPlaying := False\<rparr> else st);
                c = newComment props tId tStamp st x y drawing;
                updatedVersion = av\<lparr>v_comments := c # v_comments av\<rparr>
            in Inr (st1\<lparr>versions := map (\<lambda>v. if v_id v = v_id av then updatedVersion else v) (versions st),
                        activeCommentId := Some (c_id c),
                        drawingTool := (if drawingTool st \<noteq> pointer then pointer else drawingTool st)\<rparr>))"

text \<open>
  The translation of a drawing by \<open>(dx, dy)\<close>: the block that \<open>handleUpdateCommentPosition\<close>
  and \<open>StaticDrawings\<close> both contain. A box with a \<open>rect\<close> moves its corner, a pen drawing
  with \<open>points\<close> moves every point, anything else is left as it is.
\<close>

definition translateDrawing :: "real \<Rightarrow> real \<Rightarrow> Drawing \<Rightarrow> Drawing" where
  "translateDrawing dx dy d =
     (case (d_type d, d_rect d, d_points d) of
        (Box, Some rect, _) \<Rightarrow> d\<lparr>d_rect := Some (rect\<lparr>r_x := r_x rect + dx, r_y := r_y rect + dy\<rparr>)\<rparr>
      | (Pen, _, Some points) \<Rightarrow>
          d\<lparr>d_points := Some (map (\<lambda>p. \<lparr>p_x = p_x p + dx, p_y = p_y p + dy\<rparr>) points)\<rparr>
      | _ \<Rightarrow> d)"

text \<open>\<open>c.x || 0\<close>: an absent coordinate counts as 0.\<close>

definition orZero :: "real option \<Rightarrow> real" where
  "orZero v = (case v of None \<Rightarrow> 0 | Some r \<Rightarrow> r)"

text \<open>The body of the inner \<open>map\<close> of \<open>handleUpdateCommentPosition\<close> for the comment that is moved.\<close>

definition moveComment :: "real \<Rightarrow> real \<Rightarrow> Comment \<Rightarrow> Comment" where
  "moveComment newX newY c =
     (let oldX = orZero (c_x c);
          oldY = orZero (c_y c);
          dx = newX - oldX;
          dy = newY - oldY;
          newDrawing = map_option (translateDrawing dx dy) (c_drawing c)
      in Comment (c_id c) (c_userId c) (c_text c) (c_timestamp c) (c_resolved c)
           (Some newX) (Some newY) (c_videoTimestamp c) newDrawing (c_replies c) (c_isInternal c))"

definition handleUpdateCommentPosition :: "Room \<Rightarrow> string \<Rightarrow> real \<Rightarrow> real \<Rightarrow> Room" where
  "handleUpdateCommentPosition st ident newX newY =
     st\<lparr>versions :=
          map (\<lambda>v. if v_id v \<noteq> activeVersionId st then v
                    else v\<lparr>v_comments :=
                            map (\<lambda>c. if c_id c \<noteq> ident then c else moveComment newX newY c)
                              (v_comments v)\<rparr>)
            (versions st)\<rparr>"

text \<open>\<open>{ ...c, resolved: true }\<close>\<close>

definition markResolved :: "Comment \<Rightarrow> Comment" where
  "markResolved c =
     Comment (c_id c) (c_userId c) (c_text c) (c_timestamp c) True
       (c_x c) (c_y c) (c_videoTimestamp c) (c_drawing c) (c_replies c) (c_isInternal c)"

definition handleResolveComment :: "Room \<Rightarrow> string \<Rightarrow> error + Room" where
  "handleResolveComment st ident =
     (case activeVersion st of
        None \<Rightarrow> Inl TypeError
      | Some av \<Rightarrow>
          let updatedVersion =
                av\<lparr>v_comments := map (\<lambda>c. if c_id c = ident then markResolved c else c) (v_comments av)\<rparr>
          in Inr (st\<lparr>versions := map (\<lambda>v. if v_id v = v_id av then updatedVersion else v) (versions st)\<rparr>))"

text \<open>\<open>visibleComments\<close>; an absent \<open>isInternal\<close> is falsy.\<close>

definition visibleComments :: "RoomProps \<Rightarrow> Room \<Rightarrow> error + Comment list" where
  "visibleComments props st =
     (case activeVersion st of
        None \<Rightarrow> Inl TypeError
      | Some av \<Rightarrow>
          Inr (filter (\<lambda>c. if userRole props = APPROVER \<and> c_isInternal c = Some True then False else True)
                 (v_comments av)))"

text \<open>\<open>handleReplyToComment\<close>; the reply is a comment without position, drawing or replies.\<close>

definition handleReplyToComment ::
  "RoomProps \<Rightarrow> nat \<Rightarrow> nat \<Rightarrow> Room \<Rightarrow> string \<Rightarrow> string \<Rightarrow> bool \<Rightarrow> error + Room" where
  "handleReplyToComment props tId tStamp st ident txt isInternal =
     (let reply = Comment (''r_'' @ decimal tId) (userId props) txt tStamp False
                    None None None None None (Some isInternal)
      in case activeVersion st of
           None \<Rightarrow> Inl TypeError
         | Some av \<Rightarrow>
             let updatedVersion =
                   av\<lparr>v_comments :=
                        map (\<lambda>c. if c_id c = ident
                                  then Comment (c_id c) (c_userId c) (c_text c) (c_timestamp c)
                                         (c_resolved c) (c_x c) (c_y c) (c_videoTimestamp c)
                                         (c_drawing c)
                                         (Some ((case c_replies c of None \<Rightarrow> [] | Some rs \<Rightarrow> rs) @ [reply]))
                                         (c_isInternal c)
                                  else c)
                          (v_comments av)\<rparr>
             in Inr (st\<lparr>versions := map (\<lambda>v. if v_id v = v_id av then updatedVersion else v) (versions st)\<rparr>))"

section \<open>CommentThread: the sidebar\<close>

text \<open>
  The filter tabs of the sidebar; \<open>OPEN\<close> is the initial one. (The names carry a suffix:
  \<open>ALL\<close> is taken in HOL.)
\<close>

datatype ThreadFilter = ALL_filter | OPEN_filter | RESOLVED_filter

text \<open>\<open>sortedComments\<close>: the tab's filter, then newest first (a stable sort).\<close>

definition sortedComments :: "ThreadFilter \<Rightarrow> Comment list \<Rightarrow> Comment list" where
  "sortedComments flt comments =
     sort_key (\<lambda>c. - int (c_timestamp c))
       (filter (\<lambda>c. if flt = OPEN_filter then \<not> c_resolved c
                     else if flt = RESOLVED_filter then c_resolved c
                     else True) comments)"

text \<open>
  The comments whose text the sidebar prints, in order: every listed comment, followed by
  all of its \<open>replies\<close> (\<open>comment.replies.map\<close>, which tests no role).
\<close>

definition threadEntries :: "ThreadFilter \<Rightarrow> Comment list \<Rightarrow> Comment list" where
  "threadEntries flt comments =
     concat (map (\<lambda>c. c # (case c_replies c of None \<Rightarrow> [] | Some rs \<Rightarrow> rs))
               (sortedComments flt comments))"

text \<open>ReviewRoom renders the sidebar with \<open>comments={visibleComments}\<close>.\<close>

definition sidebar :: "RoomProps \<Rightarrow> ThreadFilter \<Rightarrow> Room \<Rightarrow> error + Comment list" where
  "sidebar props flt st =
     (case visibleComments props st of
        Inl err \<Rightarrow> Inl err
      | Inr vis \<Rightarrow> Inr (threadEntries flt vis))"

section \<open>AnnotationLayer: the pointer gestures\<close>

text \<open>
  A mouse event on the layer: \<open>e.clientX\<close>, \<open>e.clientY\<close>, and what \<open>containerRef.current\<close>
  answers to \<open>getBoundingClientRect()\<close> at that moment (\<open>None\<close> when the ref is not attached).
\<close>

record MouseEvent =
  clientX :: real
  clientY :: real
  containerRect :: "DOMRect option"

text \<open>The props of the layer that the handlers read.\<close>

record LayerProps =
  lp_isCompareMode :: bool
  lp_drawingTool :: Tool
  lp_color :: string

text \<open>The \<open>useState\<close> cells of the layer and its \<open>boundsRef\<close>.\<close>

record Layer =
  isDrawing :: bool
  currentPath :: "Point list"
  currentStart :: "Point option"
  currentRect :: "Rect option"
  hoveredCommentId :: "string option"
  draggedCommentId :: "string option"
  dragPosition :: "Point option"
  boundsRef :: "DOMRect option"

text \<open>The callbacks of the layer: \<open>onAddComment\<close>, \<open>onUpdateCommentPosition\<close>, \<open>onSelectComment\<close>.\<close>

datatype LayerCall =
    AddComment real real "Drawing option"
  | UpdateCommentPosition string real real
  | SelectComment string

text \<open>Truthiness of a \<open>string | null\<close>: \<open>null\<close> and the empty string are falsy.\<close>

definition truthy :: "string option \<Rightarrow> bool" where
  "truthy s \<longleftrightarrow> (case s of None \<Rightarrow> False | Some t \<Rightarrow> t \<noteq> [])"

definition getPoint :: "Layer \<Rightarrow> MouseEvent \<Rightarrow> Point" where
  "getPoint L e =
     (case (case boundsRef L of Some r \<Rightarrow> Some r | None \<Rightarrow> containerRect e) of
        None \<Rightarrow> \<lparr>p_x = 0, p_y = 0\<rparr>
      | Some rect \<Rightarrow> normalized rect (clientX e) (clientY e))"

definition handleMouseDown :: "LayerProps \<Rightarrow> Layer \<Rightarrow> MouseEvent \<Rightarrow> Layer" where
  "handleMouseDown P L e =
     (if lp_drawingTool P = hand then L
      else
        let L1 = (case containerRect e of Some r \<Rightarrow> L\<lparr>boundsRef := Some r\<rparr> | None \<Rightarrow> L)
        in if lp_isCompareMode P \<or> truthy (draggedCommentId L1) then L1
           else if lp_drawingTool P \<noteq> pointer then
             let point = getPoint L1 e
             in if lp_drawingTool P = pen then L1\<lparr>isDrawing := True, currentPath := [point]\<rparr>
                else if lp_drawingTool P = box then
                  L1\<lparr>isDrawing := True,
                     currentStart := Some point,
                     currentRect := Some \<lparr>r_x = p_x point, r_y = p_y point, r_w = 0, r_h = 0\<rparr>\<rparr>
                else L1\<lparr>isDrawing := True\<rparr>
           else L1\<lparr>isDrawing := True\<rparr>)"

definition handlePinMouseDown ::
  "LayerProps \<Rightarrow> Layer \<Rightarrow> MouseEvent \<Rightarrow> string \<Rightarrow> real \<Rightarrow> real \<Rightarrow> Layer \<times> LayerCall option" where
  "handlePinMouseDown P L e ident startX startY =
     (if lp_drawingTool P = pointer \<and> \<not> lp_isCompareMode P then
        let L1 = (case containerRect e of Some r \<Rightarrow> L\<lparr>boundsRef := Some r\<rparr> | None \<Rightarrow> L)
        in (L1\<lparr>draggedCommentId := Some ident, dragPosition := Some \<lparr>p_x = startX, p_y = startY\<rparr>\<rparr>,
            Some (SelectComment ident))
      else (L, None))"

definition handleMouseMove :: "LayerProps \<Rightarrow> Layer \<Rightarrow> MouseEvent \<Rightarrow> Layer" where
  "handleMouseMove P L e =
     (let point = getPoint L e
      in if truthy (draggedCommentId L) then
           L\<lparr>dragPosition := Some \<lparr>p_x = max 0 (min 100 (p_x point)), p_y = max 0 (min 100 (p_y point))\<rparr>\<rparr>
         else if \<not> isDrawing L then L
         else if lp_drawingTool P = pen then L\<lparr>currentPath := currentPath L @ [point]\<rparr>
         else
           case currentStart L of
             None \<Rightarrow> L
           | Some start \<Rightarrow>
               if lp_drawingTool P = box then
                 let w = p_x point - p_x start;
                     h = p_y point - p_y start
                 in L\<lparr>currentRect :=
                        Some \<lparr>r_x = (if w > 0 then p_x start else p_x point),
                              r_y = (if h > 0 then p_y start else p_y point),
                              r_w = \<bar>w\<bar>,
                              r_h = \<bar>h\<bar>\<rparr>\<rparr>
               else L)"

text \<open>
  \<open>handleMouseUp\<close> returns the new layer state and the callback it invoked, if any.
  ReviewRoom always passes \<open>onUpdateCommentPosition\<close>.
\<close>

definition handleMouseUp :: "LayerProps \<Rightarrow> Layer \<Rightarrow> MouseEvent \<Rightarrow> Layer \<times> LayerCall option" where
  "handleMouseUp P L e =
     (if truthy (draggedCommentId L) then
        (L\<lparr>draggedCommentId := None, dragPosition := None, boundsRef := None\<rparr>,
         case (draggedCommentId L, dragPosition L) of
           (Some ident, Some pos) \<Rightarrow> Some (UpdateCommentPosition ident (p_x pos) (p_y pos))
         | _ \<Rightarrow> None)
      else if \<not> isDrawing L then (L, None)
      else
        (L\<lparr>isDrawing := False, currentPath := [], currentRect := None, currentStart := None,
           boundsRef := None\<rparr>,
         if lp_drawingTool P = pointer \<and> \<not> lp_isCompareMode P then
           let point = getPoint L e in Some (AddComment (p_x point) (p_y point) None)
         else if lp_drawingTool P = pen \<and> length (currentPath L) > 1 then
           Some (AddComment (p_x (currentPath L ! 0)) (p_y (currentPath L ! 0))
                   (Some \<lparr>d_type = Pen, d_points = Some (currentPath L), d_rect = None,
                          d_color = lp_color P\<rparr>))
         else
           case currentRect L of
             None \<Rightarrow> None
           | Some rect \<Rightarrow>
               if lp_drawingTool P = box \<and> (r_w rect > 1 \<or> r_h rect > 1) then
                 Some (AddComment (r_x rect + r_w rect) (r_y rect)
                         (Some \<lparr>d_type = Box, d_points = None, d_rect = Some rect,
                                d_color = lp_color P\<rparr>))
               else None))"

definition handleMouseLeave :: "Layer \<Rightarrow> Layer" where
  "handleMouseLeave L =
     L\<lparr>isDrawing := False, hoveredCommentId := None, draggedCommentId := None,
       dragPosition := None, boundsRef := None\<rparr>"

text \<open>A run of mouse-move events, in delivery order.\<close>

fun mouseMoves :: "LayerProps \<Rightarrow> Layer \<Rightarrow> MouseEvent list \<Rightarrow> Layer" where
  "mouseMoves P L [] = L"
| "mouseMoves P L (e # es) = mouseMoves P (handleMouseMove P L e) es"

text \<open>A whole gesture: button down at \<open>e0\<close>, the moves \<open>es\<close>, button up at \<open>eUp\<close>.\<close>

definition gesture ::
  "LayerProps \<Rightarrow> Layer \<Rightarrow> MouseEvent \<Rightarrow> MouseEvent list \<Rightarrow> MouseEvent \<Rightarrow> Layer \<times> LayerCall option" where
  "gesture P L e0 es eUp = handleMouseUp P (mouseMoves P (handleMouseDown P L e0) es) eUp"

section \<open>ReviewRoom renders AnnotationLayer\<close>

text \<open>
  The props ReviewRoom hands to the layer (\<open>isCompareMode={false}\<close>,
  \<open>drawingTool={drawingTool}\<close>, \<open>color={toolColor}\<close>), and the handlers it binds to the
  layer's callbacks (\<open>onAddComment={handleAddComment}\<close>,
  \<open>onUpdateCommentPosition={handleUpdateCommentPosition}\<close>,
  \<open>onSelectComment={setActiveCommentId}\<close>).
\<close>

definition layerProps :: "Room \<Rightarrow> LayerProps" where
  "layerProps st = \<lparr>lp_isCompareMode = False, lp_drawingTool = drawingTool st, lp_color = toolColor st\<rparr>"

definition layerCall :: "RoomProps \<Rightarrow> nat \<Rightarrow> nat \<Rightarrow> Room \<Rightarrow> LayerCall option \<Rightarrow> error + Room" where
  "layerCall props tId tStamp st call =
     (case call of
        None \<Rightarrow> Inr st
      | Some (AddComment x y drawing) \<Rightarrow> handleAddComment props tId tStamp st x y drawing
      | Some (UpdateCommentPosition ident x y) \<Rightarrow> Inr (handleUpdateCommentPosition st ident x y)
      | Some (SelectComment ident) \<Rightarrow> Inr (st\<lparr>activeCommentId := Some ident\<rparr>))"

text \<open>A gesture on the layer of a room, and its effect on the room.\<close>

definition roomGesture ::
  "RoomProps \<Rightarrow> nat \<Rightarrow> nat \<Rightarrow> Room \<Rightarrow> Layer \<Rightarrow> MouseEvent \<Rightarrow> MouseEvent list \<Rightarrow> MouseEvent \<Rightarrow> error + Room" where
  "roomGesture props tId tStamp st L e0 es eUp =
     layerCall props tId tStamp st (snd (gesture (layerProps st) L e0 es eUp))"

section \<open>Sequences of handler calls\<close>

text \<open>Resolving the comments with the given ids one after the other (\<open>onResolve\<close> of the sidebar).\<close>

fun resolveAll :: "Room \<Rightarrow> string list \<Rightarrow> error + Room" where
  "resolveAll st [] = Inr st"
| "resolveAll st (i # is) =
     (case handleResolveComment st i of Inl err \<Rightarrow> Inl err | Inr st' \<Rightarrow> resolveAll st' is)"

section \<open>The rectangle of a box gesture, as specified\<close>

text \<open>
  The rectangle that the specification asks of a box gesture with anchor \<open>a\<close> and pointer
  \<open>p\<close>: the min-corner and the positive extent. It is compared below with what
  \<open>handleMouseMove\<close> stores.
\<close>

definition minCornerRect :: "Point \<Rightarrow> Point \<Rightarrow> Rect" where
  "minCornerRect a p = \<lparr>r_x = min (p_x a) (p_x p), r_y = min (p_y a) (p_y p),
                   r_w = \<bar>p_x p - p_x a\<bar>, r_h = \<bar>p_y p - p_y a\<bar>\<rparr>"

section \<open>Example data\<close>

text \<open>
  A content box that occupies the square from (0, 0) to (100, 100) of the screen, so that client
  coordinates and normalized coordinates agree; the layer before any gesture; an asset with
  two versions, the newer one carrying two open comments and a resolved one.
\<close>

definition exBounds :: DOMRect where
  "exBounds = \<lparr>b_left = 0, b_top = 0, b_width = 100, b_height = 100\<rparr>"

definition mouseAt :: "real \<Rightarrow> real \<Rightarrow> MouseEvent" where
  "mouseAt cx cy = \<lparr>clientX = cx, clientY = cy, containerRect = Some exBounds\<rparr>"

definition idleLayer :: Layer where
  "idleLayer = \<lparr>isDrawing = False, currentPath = [], currentStart = None, currentRect = None,
                 hoveredCommentId = None, draggedCommentId = None, dragPosition = None,
                 boundsRef = None\<rparr>"

definition exC1 :: Comment where
  "exC1 = Comment ''c1'' ''u2'' ''Low contrast'' 100 False (Some 45) (Some 30) None
            (Some \<lparr>d_type = Box, d_points = None,
                   d_rect = Some \<lparr>r_x = 40, r_y = 25, r_w = 10, r_h = 10\<rparr>, d_color = ''#ef4444''\<rparr>)
            (Some []) None"

definition exC2 :: Comment where
  "exC2 = Comment ''c2'' ''u1'' ''Team only'' 200 False (Some 10) (Some 10) None
            (Some \<lparr>d_type = Pen, d_points = Some [\<lparr>p_x = 10, p_y = 10\<rparr>, \<lparr>p_x = 12, p_y = 15\<rparr>],
                   d_rect = None, d_color = ''#3b82f6''\<rparr>)
            None (Some True)"

definition exC3 :: Comment where
  "exC3 = Comment ''c3'' ''u2'' ''Done'' 300 True (Some 70) (Some 80) None None None None"

definition exV2 :: AssetVersion where
  "exV2 = \<lparr>v_id = ''v2'', v_versionNumber = 2, v_url = ''two.png'', v_createdAt = 2000,
           v_comments = [exC1, exC2, exC3]\<rparr>"

definition exV1 :: AssetVersion where
  "exV1 = \<lparr>v_id = ''v1'', v_versionNumber = 1, v_url = ''one.png'', v_createdAt = 1000,
           v_comments = []\<rparr>"

definition exRoom :: "Tool \<Rightarrow> AssetStatus \<Rightarrow> Room" where
  "exRoom tool status =
     \<lparr>activeVersionId = ''v2'', compareVersionId = None, versions = [exV2, exV1],
      isUploadModalOpen = False, currentAssetStatus = status, isCompareMode = False,
      activeCommentId = None, currentTimeRef = 0, isVideoPlaying = False, drawingTool = tool,
      toolColor = ''#ef4444'', zoom = 1, pan = \<lparr>p_x = 0, p_y = 0\<rparr>\<rparr>"

definition exProps :: "UserRole \<Rightarrow> RoomProps" where
  "exProps role = \<lparr>assetType = IMAGE, userId = ''u9'', userRole = role\<rparr>"

definition exViewport :: DOMRect where
  "exViewport = \<lparr>b_left = 100, b_top = 50, b_width = 800, b_height = 600\<rparr>"

definition exLayout :: DOMRect where
  "exLayout = \<lparr>b_left = 200, b_top = 100, b_width = 400, b_height = 400\<rparr>"

definition exWheel :: "real \<Rightarrow> WheelEvent" where
  "exWheel delta = \<lparr>deltaY = delta, w_clientX = 300, w_clientY = 200, viewportRect = Some exViewport\<rparr>"

definition exOps :: "ZoomOp list" where
  "exOps = [Wheel (exWheel (- 1000000)), ZoomIn, Wheel (exWheel 1000000), ZoomOut, PanMove 5 5]"

definition exWheelFar :: WheelEvent where
  "exWheelFar = \<lparr>deltaY = - 1000000, w_clientX = 2 ^ 1023, w_clientY = 200,
                  viewportRect = Some exViewport\<rparr>"

text \<open>The example room after a Creator's internal reply to its first comment.\<close>

definition exReply :: Comment where
  "exReply = Comment (''r_'' @ decimal 7000) ''u9'' ''Keep this from the client'' 7001 False
               None None None None None (Some True)"

definition exC1Replied :: Comment where
  "exC1Replied = Comment ''c1'' ''u2'' ''Low contrast'' 100 False (Some 45) (Some 30) None
            (Some \<lparr>d_type = Box, d_points = None,
                   d_rect = Some \<lparr>r_x = 40, r_y = 25, r_w = 10, r_h = 10\<rparr>, d_color = ''#ef4444''\<rparr>)
            (Some [exReply]) None"

definition exRepliedRoom :: Room where
  "exRepliedRoom = (exRoom pointer PENDING)\<lparr>versions := [exV2\<lparr>v_comments := [exC1Replied, exC2, exC3]\<rparr>, exV1]\<rparr>"

section \<open>Viewport transform: zoom range and zoom anchor\<close>

lemma zoom_in_range:
  fixes z :: real
  assumes "0.1 \<le> z" and "z \<le> 5"
  shows "0.1 \<le> min 5 (z + 0.25) \<and> min 5 (z + 0.25) \<le> 5"
  using assms by (simp add: min_def)

lemma zoom_out_range:
  fixes z :: real
  assumes "0.1 \<le> z" and "z \<le> 5"
  shows "0.1 \<le> max 0.1 (z - 0.25) \<and> max 0.1 (z - 0.25) \<le> 5"
  using assms by (simp add: max_def)

lemma anchor_algebra:
  fixes cx vl p0 z0 z1 c w :: real
  assumes "z0 \<noteq> 0" "z1 \<noteq> 0"
  shows "(cx - (vl + (cx - vl - (cx - vl - p0) * (z1 / z0)) + z1 * c)) / (z1 * w)
       = (cx - (vl + p0 + z0 * c)) / (z0 * w)"
proof -
  define q where "q = (cx - vl - p0) / z0"
  have q: "cx - vl - p0 = q * z0" using assms(1) by (simp add: q_def)
  have "cx - (vl + (cx - vl - (cx - vl - p0) * (z1 / z0)) + z1 * c) = (cx - vl - p0) * (z1 / z0) - z1 * c"
    by simp
  also have "\<dots> = q * z1 - z1 * c"
    unfolding q_def by simp
  also have "\<dots> = z1 * (q - c)"
    by (simp add: algebra_simps)
  finally have "(cx - (vl + (cx - vl - (cx - vl - p0) * (z1 / z0)) + z1 * c)) / (z1 * w) = (q - c) / w"
    using assms(2) by simp
  moreover have "cx - (vl + p0 + z0 * c) = z0 * (q - c)"
    using q by (simp add: algebra_simps)
  then have "(cx - (vl + p0 + z0 * c)) / (z0 * w) = (q - c) / w"
    using assms(1) by simp
  ultimately show ?thesis by simp
qed

lemma normalize_anchor:
  assumes "z0 \<noteq> 0" and "z1 \<noteq> 0"
  shows "normalized (containerBounds vr layout z1
            \<lparr>p_x = (cx - b_left vr) - ((cx - b_left vr) - p_x p0) * (z1 / z0),
             p_y = (cy - b_top vr) - ((cy - b_top vr) - p_y p0) * (z1 / z0)\<rparr>) cx cy
       = normalized (containerBounds vr layout z0 p0) cx cy"
  unfolding normalized_def containerBounds_def
  by (simp only: DOMRect.select_convs Point.select_convs anchor_algebra [OF assms])

lemma clamp_range:
  fixes a :: real
  shows "0.1 \<le> min (max 0.1 a) 5" and "min (max 0.1 a) 5 \<le> 5"
  by linarith+

lemma handleWheel_zoom_range:
  assumes "0.1 \<le> zoom st" and "zoom st \<le> 5"
  shows "0.1 \<le> zoom (handleWheel st e) \<and> zoom (handleWheel st e) \<le> 5"
proof (cases "isCompareMode st \<or> viewportRect e = None")
  case True
  then have "handleWheel st e = st" by (auto simp: handleWheel_def Let_def)
  with assms show ?thesis by simp
next
  case False
  then have "zoom (handleWheel st e) = min (max 0.1 (zoom st * (1 + - deltaY e * 0.002))) 5"
    by (auto simp: handleWheel_def Let_def)
  then show ?thesis using clamp_range by presburger
qed

lemma zoomOp_zoom_range:
  assumes "0.1 \<le> zoom st" and "zoom st \<le> 5"
  shows "0.1 \<le> zoom (zoomOp st op) \<and> zoom (zoomOp st op) \<le> 5"
proof (cases op)
  case (Wheel e)
  then show ?thesis using handleWheel_zoom_range [OF assms] by simp
next
  case ZoomIn
  have "zoom (zoomInButton st) = min 5 (zoom st + 0.25)" by (simp add: zoomInButton_def)
  with ZoomIn zoom_in_range [OF assms] show ?thesis by (simp only: zoomOp.simps)
next
  case ZoomOut
  have "zoom (zoomOutButton st) = max 0.1 (zoom st - 0.25)" by (simp add: zoomOutButton_def)
  with ZoomOut zoom_out_range [OF assms] show ?thesis by (simp only: zoomOp.simps)
next
  case ResetZoom
  have "zoom (handleResetZoom st) = 1" by (simp add: handleResetZoom_def)
  with ResetZoom show ?thesis by simp
next
  case (PanMove dx dy)
  have "zoom (handlePanMove st dx dy) = zoom st" by (simp add: handlePanMove_def)
  with PanMove assms show ?thesis by (simp only: zoomOp.simps)
qed

lemma wheel_ratio_range:
  fixes z0 a :: real
  assumes "0.1 \<le> z0" and "z0 \<le> 5"
  shows "0 \<le> min (max 0.1 a) 5 / z0" and "min (max 0.1 a) 5 / z0 \<le> 50"
proof -
  have z0: "0 < z0" using assms(1) by simp
  have r: "0.1 \<le> min (max 0.1 a) 5" "min (max 0.1 a) 5 \<le> 5" by (rule clamp_range)+
  show "0 \<le> min (max 0.1 a) 5 / z0" using r(1) z0 by simp
  have "min (max 0.1 a) 5 \<le> 50 * z0" using r(2) assms(1) by simp
  then show "min (max 0.1 a) 5 / z0 \<le> 50" using z0 by (simp add: pos_divide_le_eq)
qed

lemma anchored_pan_bound:
  fixes m p r :: real
  assumes "0 \<le> r" and "r \<le> 50"
  shows "\<bar>m - (m - p) * r\<bar> \<le> \<bar>m\<bar> + 50 * \<bar>m - p\<bar>"
proof -
  have "\<bar>m - (m - p) * r\<bar> \<le> \<bar>m\<bar> + \<bar>(m - p) * r\<bar>" by (rule abs_triangle_ineq4)
  also have "\<bar>(m - p) * r\<bar> = \<bar>m - p\<bar> * r" using assms(1) by (simp add: abs_mult)
  also have "\<bar>m - p\<bar> * r \<le> \<bar>m - p\<bar> * 50" using assms(2) by (intro mult_left_mono) simp_all
  finally show ?thesis by simp
qed

lemma handleWheel_pan_bound:
  assumes "0.1 \<le> zoom st" and "zoom st \<le> 5" and "viewportRect e = Some vr"
  shows "\<bar>p_x (pan (handleWheel st e))\<bar>
           \<le> \<bar>w_clientX e - b_left vr\<bar> + 50 * \<bar>w_clientX e - b_left vr - p_x (pan st)\<bar>"
    and "\<bar>p_y (pan (handleWheel st e))\<bar>
           \<le> \<bar>w_clientY e - b_top vr\<bar> + 50 * \<bar>w_clientY e - b_top vr - p_y (pan st)\<bar>"
proof -
  have tri: "\<bar>p\<bar> \<le> \<bar>m\<bar> + 50 * \<bar>m - p\<bar>" for m p :: real
  proof -
    have lin: "a \<le> b + d \<Longrightarrow> 0 \<le> d \<Longrightarrow> a \<le> b + 50 * d" for a b d :: real by linarith
    have "\<bar>m - (m - p)\<bar> \<le> \<bar>m\<bar> + \<bar>m - p\<bar>" by (rule abs_triangle_ineq4)
    then have "\<bar>p\<bar> \<le> \<bar>m\<bar> + \<bar>m - p\<bar>" by simp
    then show ?thesis by (rule lin) simp
  qed
  note r = wheel_ratio_range [OF assms(1,2)]
  show "\<bar>p_x (pan (handleWheel st e))\<bar>
           \<le> \<bar>w_clientX e - b_left vr\<bar> + 50 * \<bar>w_clientX e - b_left vr - p_x (pan st)\<bar>"
  proof (cases "isCompareMode st")
    case True
    then show ?thesis by (simp add: handleWheel_def tri)
  next
    case False
    then have "p_x (pan (handleWheel st e)) = (w_clientX e - b_left vr)
        - ((w_clientX e - b_left vr) - p_x (pan st))
          * (min (max 0.1 (zoom st * (1 + - deltaY e * 0.002))) 5 / zoom st)"
      using assms(3) by (simp add: handleWheel_def Let_def)
    then show ?thesis using anchored_pan_bound [OF r] by presburger
  qed
  show "\<bar>p_y (pan (handleWheel st e))\<bar>
           \<le> \<bar>w_clientY e - b_top vr\<bar> + 50 * \<bar>w_clientY e - b_top vr - p_y (pan st)\<bar>"
  proof (cases "isCompareMode st")
    case True
    then show ?thesis by (simp add: handleWheel_def tri)
  next
    case False
    then have "p_y (pan (handleWheel st e)) = (w_clientY e - b_top vr)
        - ((w_clientY e - b_top vr) - p_y (pan st))
          * (min (max 0.1 (zoom st * (1 + - deltaY e * 0.002))) 5 / zoom st)"
      using assms(3) by (simp add: handleWheel_def Let_def)
    then show ?thesis using anchored_pan_bound [OF r] by presburger
  qed
qed

lemma bound_101:
  fixes m p q B :: real
  assumes "\<bar>q\<bar> \<le> \<bar>m\<bar> + 50 * \<bar>m - p\<bar>" and "\<bar>m\<bar> \<le> B" and "\<bar>p\<bar> \<le> B"
  shows "\<bar>q\<bar> \<le> 101 * B"
proof -
  have lin: "a \<le> b + 50 * d \<Longrightarrow> b \<le> B \<Longrightarrow> c \<le> B \<Longrightarrow> d \<le> b + c \<Longrightarrow> a \<le> 101 * B"
    for a b c d :: real by linarith
  have "\<bar>m - p\<bar> \<le> \<bar>m\<bar> + \<bar>p\<bar>" by (rule abs_triangle_ineq4)
  with assms show ?thesis by (rule lin [of "\<bar>q\<bar>" "\<bar>m\<bar>" "\<bar>m - p\<bar>" "\<bar>p\<bar>"])
qed

text \<open>
  Claim C6 (zoom clamp invariant), as amended. Starting from a zoom in [0.1, 5], every sequence
  of wheel events (with any delta and pointer position), clicks on the zoom-in (+0.25) and
  zoom-out (-0.25) buttons, resets and pan moves leaves the zoom in [0.1, 5]; the zoom is
  therefore never zero and never out of the range of the doubles. The pan is not clamped: a
  wheel event in such a state moves it to \<open>m - (m - p0) * (z1 / z0)\<close> with a ratio of at
  most 50, so that a pointer position and a pan of magnitude at most \<open>B\<close> give a pan of
  magnitude at most \<open>101 * B\<close>, which is within the range of the doubles whenever
  \<open>101 * B\<close> is.
\<close>

theorem zoom_clamp_invariant:
  assumes "0.1 \<le> zoom st" and "zoom st \<le> 5"
  shows "0.1 \<le> zoom (zoomOps st ops) \<and> zoom (zoomOps st ops) \<le> 5
       \<and> (\<forall>vr B. viewportRect e = Some vr
              \<and> \<bar>w_clientX e - b_left vr\<bar> \<le> B \<and> \<bar>p_x (pan st)\<bar> \<le> B
              \<and> \<bar>w_clientY e - b_top vr\<bar> \<le> B \<and> \<bar>p_y (pan st)\<bar> \<le> B
            \<longrightarrow> \<bar>p_x (pan (handleWheel st e))\<bar> \<le> 101 * B
              \<and> \<bar>p_y (pan (handleWheel st e))\<bar> \<le> 101 * B
              \<and> (101 * B < 2 ^ 1024 \<longrightarrow>
                    \<not> overflows (p_x (pan (handleWheel st e)))
                  \<and> \<not> overflows (p_y (pan (handleWheel st e)))))"
proof (intro conjI allI impI)
  have z: "0.1 \<le> zoom (zoomOps st ops) \<and> zoom (zoomOps st ops) \<le> 5"
    using assms
  proof (induction ops arbitrary: st)
    case Nil
    then show ?case by simp
  next
    case (Cons op ops)
    have "0.1 \<le> zoom (zoomOp st op)" and "zoom (zoomOp st op) \<le> 5"
      using zoomOp_zoom_range [OF Cons.prems] by blast+
    then show ?case using Cons.IH by simp
  qed
  show "0.1 \<le> zoom (zoomOps st ops)" and "zoom (zoomOps st ops) \<le> 5"
    using z by blast+
next
  fix vr B
  assume h: "viewportRect e = Some vr
              \<and> \<bar>w_clientX e - b_left vr\<bar> \<le> B \<and> \<bar>p_x (pan st)\<bar> \<le> B
              \<and> \<bar>w_clientY e - b_top vr\<bar> \<le> B \<and> \<bar>p_y (pan st)\<bar> \<le> B"
  then have vr: "viewportRect e = Some vr" by blast
  note b = handleWheel_pan_bound [OF assms vr]
  show x: "\<bar>p_x (pan (handleWheel st e))\<bar> \<le> 101 * B"
    using bound_101 [OF b(1)] h by blast
  show y: "\<bar>p_y (pan (handleWheel st e))\<bar> \<le> 101 * B"
    using bound_101 [OF b(2)] h by blast
  {
    assume "101 * B < 2 ^ 1024"
    with x show "\<not> overflows (p_x (pan (handleWheel st e)))" by (simp add: overflows_def)
  }
  {
    assume "101 * B < 2 ^ 1024"
    with y show "\<not> overflows (p_y (pan (handleWheel st e)))" by (simp add: overflows_def)
  }
qed

text \<open>
  Claim C1 (zoom-anchor invariance). For a zoom \<open>z0\<close> in [0.1, 5], any pan \<open>p0\<close> and any
  wheel event at pointer position \<open>m\<close> (relative to the viewport's corner), \<open>handleWheel\<close>
  yields \<open>(z1, p1)\<close> with \<open>p1 = m - (m - p0) * (z1 / z0)\<close>, and the normalized point
  that \<open>getPoint\<close> computes for the pointer is the same under \<open>(z0, p0)\<close> and under
  \<open>(z1, p1)\<close>, wherever the layout has put the content box: the content under the cursor
  does not move.
\<close>

theorem zoom_anchor_invariance:
  assumes "0.1 \<le> zoom st" and "zoom st \<le> 5" and "viewportRect e = Some vr"
  shows "let st' = handleWheel st e;
             mx = w_clientX e - b_left vr;
             my = w_clientY e - b_top vr
         in p_x (pan st') = mx - (mx - p_x (pan st)) * (zoom st' / zoom st)
          \<and> p_y (pan st') = my - (my - p_y (pan st)) * (zoom st' / zoom st)
          \<and> normalized (containerBounds vr layout (zoom st') (pan st')) (w_clientX e) (w_clientY e)
            = normalized (containerBounds vr layout (zoom st) (pan st)) (w_clientX e) (w_clientY e)"
proof (cases "isCompareMode st")
  case True
  have z0: "zoom st \<noteq> 0" using assms(1) by auto
  from True have "handleWheel st e = st" by (simp add: handleWheel_def)
  with z0 show ?thesis by (simp add: Let_def)
next
  case False
  define z1 where "z1 = min (max 0.1 (zoom st * (1 + - deltaY e * 0.002))) 5"
  have "0.1 \<le> z1" unfolding z1_def by (rule clamp_range)
  then have z1: "z1 \<noteq> 0" by auto
  have z0: "zoom st \<noteq> 0" using assms(1) by auto
  have st': "handleWheel st e = st\<lparr>zoom := z1,
      pan := \<lparr>p_x = (w_clientX e - b_left vr) - ((w_clientX e - b_left vr) - p_x (pan st)) * (z1 / zoom st),
              p_y = (w_clientY e - b_top vr) - ((w_clientY e - b_top vr) - p_y (pan st)) * (z1 / zoom st)\<rparr>\<rparr>"
    using False assms(3) by (simp add: handleWheel_def Let_def z1_def)
  have "normalized (containerBounds vr layout (zoom (handleWheel st e)) (pan (handleWheel st e))) (w_clientX e) (w_clientY e)
      = normalized (containerBounds vr layout (zoom st) (pan st)) (w_clientX e) (w_clientY e)"
    unfolding st' using normalize_anchor [OF z0 z1, of vr layout "w_clientX e" "pan st" "w_clientY e"] by simp
  moreover have "p_x (pan (handleWheel st e)) = (w_clientX e - b_left vr) - ((w_clientX e - b_left vr) - p_x (pan st)) * (zoom (handleWheel st e) / zoom st)"
    unfolding st' by simp
  moreover have "p_y (pan (handleWheel st e)) = (w_clientY e - b_top vr) - ((w_clientY e - b_top vr) - p_y (pan st)) * (zoom (handleWheel st e) / zoom st)"
    unfolding st' by simp
  ultimately show ?thesis unfolding Let_def by blast
qed

section \<open>Versions: the active version under updates\<close>

lemma find_map_id_preserving:
  assumes "\<And>v. v_id (f v) = v_id v"
  shows "find (\<lambda>v. v_id v = a) (map f xs) = map_option f (find (\<lambda>v. v_id v = a) xs)"
  by (induction xs) (simp_all add: assms)

lemma activeVersion_map:
  assumes "\<And>v. v_id (f v) = v_id v" and "versions st' = map f (versions st)"
    and "activeVersionId st' = activeVersionId st"
  shows "activeVersion st' = map_option f (activeVersion st)"
  unfolding activeVersion_def assms(2,3) find_map_id_preserving [of f, OF assms(1)]
  by (cases "versions st") (auto split: option.splits)

lemma activeVersion_replace:
  assumes av: "activeVersion st = Some av" and u: "v_id u = v_id av"
    and vs: "versions st' = map (\<lambda>v. if v_id v = v_id av then u else v) (versions st)"
    and aid: "activeVersionId st' = activeVersionId st"
  shows "activeVersion st' = Some u"
proof -
  have "activeVersion st' = map_option (\<lambda>v. if v_id v = v_id av then u else v) (activeVersion st)"
    by (rule activeVersion_map [OF _ vs aid]) (simp add: u)
  then show ?thesis by (simp add: av)
qed

lemma handleAddComment_commits:
  assumes "activeVersion st = Some av" and "userRole props \<noteq> OBSERVER" and "\<not> isCompareMode st"
  shows "\<exists>st'. handleAddComment props tId tStamp st x y d = Inr st'
           \<and> activeVersion st' = Some (av\<lparr>v_comments := newComment props tId tStamp st x y d # v_comments av\<rparr>)"
proof -
  let ?u = "av\<lparr>v_comments := newComment props tId tStamp st x y d # v_comments av\<rparr>"
  obtain st' where st': "handleAddComment props tId tStamp st x y d = Inr st'"
    and vs: "versions st' = map (\<lambda>v. if v_id v = v_id av then ?u else v) (versions st)"
    and aid: "activeVersionId st' = activeVersionId st"
    using assms by (simp add: handleAddComment_def Let_def)
  have "activeVersion st' = Some ?u"
    by (rule activeVersion_replace [OF assms(1) _ vs aid]) simp
  with st' show ?thesis by blast
qed

lemma handleAddComment_refused:
  assumes "userRole props = OBSERVER \<or> isCompareMode st"
  shows "handleAddComment props tId tStamp st x y d = Inr st"
  using assms by (auto simp: handleAddComment_def)

lemma handleResolveComment_active:
  assumes "activeVersion st = Some av"
  shows "\<exists>st'. handleResolveComment st i = Inr st'
           \<and> activeVersion st' = Some (av\<lparr>v_comments := map (\<lambda>c. if c_id c = i then markResolved c else c) (v_comments av)\<rparr>)
           \<and> currentAssetStatus st' = currentAssetStatus st"
proof -
  let ?u = "av\<lparr>v_comments := map (\<lambda>c. if c_id c = i then markResolved c else c) (v_comments av)\<rparr>"
  obtain st' where st': "handleResolveComment st i = Inr st'"
    and vs: "versions st' = map (\<lambda>v. if v_id v = v_id av then ?u else v) (versions st)"
    and aid: "activeVersionId st' = activeVersionId st"
    and stat: "currentAssetStatus st' = currentAssetStatus st"
    using assms by (simp add: handleResolveComment_def Let_def)
  have "activeVersion st' = Some ?u"
    by (rule activeVersion_replace [OF assms(1) _ vs aid]) simp
  with st' stat show ?thesis by blast
qed

lemma resolve_step_id: "c_id (if c_id c = i then markResolved c else c) = c_id c"
  by (simp add: markResolved_def)

lemma resolve_step_resolved:
  "c_resolved (if c_id c = i then markResolved c else c) \<longleftrightarrow> c_resolved c \<or> c_id c = i"
  by (simp add: markResolved_def)

lemma openTasks_after_resolve:
  "c_id ` set (openTasks (av\<lparr>v_comments := map (\<lambda>c. if c_id c = i then markResolved c else c) (v_comments av)\<rparr>))
     = c_id ` set (openTasks av) - {i}"
proof (rule set_eqI)
  fix a
  let ?g = "\<lambda>c. if c_id c = i then markResolved c else c"
  have "a \<in> c_id ` set (openTasks (av\<lparr>v_comments := map ?g (v_comments av)\<rparr>))
      \<longleftrightarrow> (\<exists>c \<in> set (v_comments av). \<not> c_resolved (?g c) \<and> a = c_id (?g c))"
    unfolding openTasks_def by (simp add: image_iff Bex_def) blast
  also have "\<dots> \<longleftrightarrow> (\<exists>c \<in> set (v_comments av). \<not> c_resolved c \<and> c_id c \<noteq> i \<and> a = c_id c)"
    unfolding resolve_step_id resolve_step_resolved by blast
  also have "\<dots> \<longleftrightarrow> a \<in> c_id ` set (openTasks av) - {i}"
    unfolding openTasks_def by auto
  finally show "a \<in> c_id ` set (openTasks (av\<lparr>v_comments := map ?g (v_comments av)\<rparr>))
      \<longleftrightarrow> a \<in> c_id ` set (openTasks av) - {i}" .
qed

lemma resolveAll_active:
  assumes "activeVersion st = Some av"
  shows "\<exists>st' av'. resolveAll st ids = Inr st' \<and> activeVersion st' = Some av'
           \<and> c_id ` set (openTasks av') = c_id ` set (openTasks av) - set ids
           \<and> currentAssetStatus st' = currentAssetStatus st"
  using assms
proof (induction ids arbitrary: st av)
  case Nil
  then show ?case by simp
next
  case (Cons i ids)
  let ?u = "av\<lparr>v_comments := map (\<lambda>c. if c_id c = i then markResolved c else c) (v_comments av)\<rparr>"
  obtain st1 where st1: "handleResolveComment st i = Inr st1" "activeVersion st1 = Some ?u"
      "currentAssetStatus st1 = currentAssetStatus st"
    using handleResolveComment_active [OF Cons.prems] by blast
  obtain st' av' where r: "resolveAll st1 ids = Inr st'" "activeVersion st' = Some av'"
      "c_id ` set (openTasks av') = c_id ` set (openTasks ?u) - set ids"
      "currentAssetStatus st' = currentAssetStatus st1"
    using Cons.IH [OF st1(2)] by blast
  have "c_id ` set (openTasks av') = c_id ` set (openTasks av) - set (i # ids)"
    unfolding r(3) openTasks_after_resolve by auto
  with st1 r show ?case by simp
qed

lemma approve_eq:
  assumes "activeVersion st = Some av"
  shows "approve props st =
     Inr (if (userRole props = APPROVER \<or> userRole props = SUPER_ADMIN)
             \<and> (length (openTasks av) = 0 \<or> userRole props = SUPER_ADMIN)
          then st\<lparr>currentAssetStatus := APPROVED\<rparr> else st)"
  using assms
  by (simp add: approve_def canApprove_def openTasksCount_def isDecisionMaker_def handleApprove_def openTasks_def)

text \<open>
  Claim C2 (approval gate). A click on Approve changes the status to Approved exactly when the
  actor is an Approver or a SuperAdmin and, unless the actor is a SuperAdmin, the active
  version has no unresolved comment; otherwise the room is unchanged. In particular an
  Approver facing unresolved comments is refused, and once every unresolved comment has been
  resolved the same click succeeds and the status becomes Approved.
\<close>

theorem approval_gate:
  assumes "activeVersion st = Some av"
  shows "approve props st =
           Inr (if (userRole props = APPROVER \<or> userRole props = SUPER_ADMIN)
                   \<and> (length (openTasks av) = 0 \<or> userRole props = SUPER_ADMIN)
                then st\<lparr>currentAssetStatus := APPROVED\<rparr> else st)
       \<and> (userRole props = APPROVER \<longrightarrow> openTasks av \<noteq> [] \<longrightarrow>
            c_id ` set (openTasks av) \<subseteq> set ids \<longrightarrow>
            approve props st = Inr st
          \<and> (\<exists>st'. resolveAll st ids = Inr st'
                \<and> approve props st' = Inr (st'\<lparr>currentAssetStatus := APPROVED\<rparr>)))"
proof (intro conjI impI)
  show "approve props st =
           Inr (if (userRole props = APPROVER \<or> userRole props = SUPER_ADMIN)
                   \<and> (length (openTasks av) = 0 \<or> userRole props = SUPER_ADMIN)
                then st\<lparr>currentAssetStatus := APPROVED\<rparr> else st)"
    by (rule approve_eq [OF assms])
next
  assume "userRole props = APPROVER" and "openTasks av \<noteq> []"
  then show "approve props st = Inr st"
    by (simp add: approve_eq [OF assms])
next
  assume role: "userRole props = APPROVER" and sub: "c_id ` set (openTasks av) \<subseteq> set ids"
  obtain st' av' where r: "resolveAll st ids = Inr st'" "activeVersion st' = Some av'"
      "c_id ` set (openTasks av') = c_id ` set (openTasks av) - set ids"
    using resolveAll_active [OF assms] by blast
  from sub have "c_id ` set (openTasks av) - set ids = {}" by (simp only: Diff_eq_empty_iff)
  with r(3) have "c_id ` set (openTasks av') = {}" by (simp only:)
  then have "openTasks av' = []" by simp
  then have "approve props st' = Inr (st'\<lparr>currentAssetStatus := APPROVED\<rparr>)"
    using role by (simp add: approve_eq [OF r(2)])
  with r(1) show "\<exists>st'. resolveAll st ids = Inr st'
                \<and> approve props st' = Inr (st'\<lparr>currentAssetStatus := APPROVED\<rparr>)"
    by blast
qed

text \<open>
  The filter of \<open>visibleComments\<close> on the top-level list: a comment of the active version
  flagged \<open>isInternal\<close> passes exactly when the viewer is not an Approver, every other comment
  always passes, and the result is a subsequence of the stored list.
\<close>

lemma visibleComments_top_level:
  assumes "activeVersion st = Some av"
  shows "\<exists>vis. visibleComments props st = Inr vis
           \<and> (\<forall>c \<in> set (v_comments av).
                 c_isInternal c = Some True \<longrightarrow> (c \<in> set vis \<longleftrightarrow> userRole props \<noteq> APPROVER))
           \<and> (\<forall>c \<in> set (v_comments av). c_isInternal c \<noteq> Some True \<longrightarrow> c \<in> set vis)
           \<and> subseq vis (v_comments av)
           \<and> (userRole props \<noteq> APPROVER \<longrightarrow> vis = v_comments av)"
  using assms by (auto simp: visibleComments_def)

text \<open>
  Claim C8 (upload-new-version postcondition). On a room whose version list is non-empty and
  newest-first (no version number exceeds that of the first version), whatever the prior
  status, the upload sets the status to Pending and prepends a version with an empty comment
  list whose number is strictly greater than that of every existing version; the existing
  versions follow it unchanged, and the list is newest-first again.
\<close>

theorem upload_new_version:
  assumes "versions st = v0 # vs"
    and "\<forall>v \<in> set (versions st). v_versionNumber v \<le> v_versionNumber v0"
  shows "\<exists>st' nv. handleUploadNewVersion props tId tUrl tCreated st = Inr st'
           \<and> currentAssetStatus st' = PENDING
           \<and> versions st' = nv # versions st
           \<and> (\<forall>v \<in> set (versions st). v_versionNumber v < v_versionNumber nv)
           \<and> v_comments nv = []
           \<and> (\<forall>v \<in> set (versions st'). v_versionNumber v \<le> v_versionNumber nv)"
  using assms by (auto simp: handleUploadNewVersion_def Let_def)

section \<open>Translating drawings\<close>

lemma translateDrawing_inverse:
  "translateDrawing (- dx) (- dy) (translateDrawing dx dy D) = D"
proof (cases "d_type D")
  case Pen
  show ?thesis
  proof (cases "d_points D")
    case None
    with Pen show ?thesis by (simp add: translateDrawing_def split: option.splits)
  next
    case (Some pts)
    have "map ((\<lambda>p. \<lparr>p_x = p_x p + - dx, p_y = p_y p + - dy\<rparr>) \<circ> (\<lambda>p. \<lparr>p_x = p_x p + dx, p_y = p_y p + dy\<rparr>)) pts = pts"
      by (rule map_idI) simp
    with Pen Some show ?thesis by (simp add: translateDrawing_def)
  qed
next
  case Box
  show ?thesis
  proof (cases "d_rect D")
    case None
    with Box show ?thesis by (simp add: translateDrawing_def)
  next
    case (Some rect)
    with Box show ?thesis by (simp add: translateDrawing_def)
  qed
qed

lemma translateDrawing_keeps:
  "d_color (translateDrawing dx dy D) = d_color D"
  "d_type (translateDrawing dx dy D) = d_type D"
  "map_option r_w (d_rect (translateDrawing dx dy D)) = map_option r_w (d_rect D)"
  "map_option r_h (d_rect (translateDrawing dx dy D)) = map_option r_h (d_rect D)"
  by (cases "d_type D"; cases "d_rect D"; cases "d_points D"; simp add: translateDrawing_def)+

lemma moveComment_back:
  assumes "c_x c = Some ox" and "c_y c = Some oy"
  shows "moveComment ox oy (moveComment (ox + dx) (oy + dy) c) = c"
proof -
  have dr: "map_option (translateDrawing (- dx) (- dy)) (map_option (translateDrawing dx dy) (c_drawing c)) = c_drawing c"
    by (cases "c_drawing c") (simp_all add: translateDrawing_inverse)
  show ?thesis
    using assms dr by (cases c) (simp add: moveComment_def orZero_def Let_def)
qed

lemma round_trip_core:
  "translateDrawing (- dx) (- dy) (translateDrawing dx dy D) = D
   \<and> d_color (translateDrawing dx dy D) = d_color D
   \<and> map_option r_w (d_rect (translateDrawing dx dy D)) = map_option r_w (d_rect D)
   \<and> map_option r_h (d_rect (translateDrawing dx dy D)) = map_option r_h (d_rect D)
   \<and> (c_x c = Some ox \<and> c_y c = Some oy \<longrightarrow>
        c_x (moveComment (ox + dx) (oy + dy) c) = Some (ox + dx)
      \<and> c_y (moveComment (ox + dx) (oy + dy) c) = Some (oy + dy)
      \<and> c_drawing (moveComment (ox + dx) (oy + dy) c) = map_option (translateDrawing dx dy) (c_drawing c)
      \<and> moveComment ox oy (moveComment (ox + dx) (oy + dy) c) = c)
   \<and> ((\<forall>v \<in> set (versions st). \<forall>k \<in> set (v_comments v).
          c_id k = ident \<longrightarrow> c_x k = Some ox \<and> c_y k = Some oy) \<longrightarrow>
        handleUpdateCommentPosition (handleUpdateCommentPosition st ident (ox + dx) (oy + dy)) ident ox oy = st)"
proof (intro conjI impI)
  show "translateDrawing (- dx) (- dy) (translateDrawing dx dy D) = D"
    by (rule translateDrawing_inverse)
  show "d_color (translateDrawing dx dy D) = d_color D"
    and "map_option r_w (d_rect (translateDrawing dx dy D)) = map_option r_w (d_rect D)"
    and "map_option r_h (d_rect (translateDrawing dx dy D)) = map_option r_h (d_rect D)"
    by (rule translateDrawing_keeps)+
next
  assume c: "c_x c = Some ox \<and> c_y c = Some oy"
  show "c_x (moveComment (ox + dx) (oy + dy) c) = Some (ox + dx)"
    and "c_y (moveComment (ox + dx) (oy + dy) c) = Some (oy + dy)"
    by (simp_all add: moveComment_def Let_def)
  show "c_drawing (moveComment (ox + dx) (oy + dy) c) = map_option (translateDrawing dx dy) (c_drawing c)"
    using c by (simp add: moveComment_def Let_def orZero_def)
  show "moveComment ox oy (moveComment (ox + dx) (oy + dy) c) = c"
    using c by (simp add: moveComment_back)
next
  assume all: "\<forall>v \<in> set (versions st). \<forall>k \<in> set (v_comments v).
          c_id k = ident \<longrightarrow> c_x k = Some ox \<and> c_y k = Some oy"
  let ?m = "\<lambda>nx ny c. if c_id c \<noteq> ident then c else moveComment nx ny c"
  let ?f = "\<lambda>nx ny v. if v_id v \<noteq> activeVersionId st then v
                      else v\<lparr>v_comments := map (?m nx ny) (v_comments v)\<rparr>"
  have mid: "c_id (moveComment nx ny k) = c_id k" for nx ny k
    by (simp add: moveComment_def Let_def)
  have one: "?m ox oy (?m (ox + dx) (oy + dy) k) = k"
    if "v \<in> set (versions st)" "k \<in> set (v_comments v)" for v k
    using all that by (simp add: mid moveComment_back)
  have "?f ox oy (?f (ox + dx) (oy + dy) v) = v" if v: "v \<in> set (versions st)" for v
  proof (cases "v_id v \<noteq> activeVersionId st")
    case True
    then show ?thesis by simp
  next
    case False
    have "map (?m ox oy \<circ> ?m (ox + dx) (oy + dy)) (v_comments v) = v_comments v"
      by (rule map_idI) (simp only: comp_def one [OF v])
    with False show ?thesis by (simp add: comp_def)
  qed
  then have "map (?f ox oy \<circ> ?f (ox + dx) (oy + dy)) (versions st) = versions st"
    by (intro map_idI) (simp only: comp_def)
  then show "handleUpdateCommentPosition (handleUpdateCommentPosition st ident (ox + dx) (oy + dy)) ident ox oy = st"
    by (simp add: handleUpdateCommentPosition_def comp_def)
qed

text \<open>
  Claim C5 (round-trip translate). Translating a pen drawing by \<open>(dx, dy)\<close> adds
  \<open>(dx, dy)\<close> to every point; translating a box adds it to \<open>rect.x\<close>, \<open>rect.y\<close> and
  keeps \<open>rect.w\<close>, \<open>rect.h\<close>; the colour is kept. Translating by \<open>(dx, dy)\<close> and then by
  \<open>(-dx, -dy)\<close> gives the drawing back. Moving a comment to \<open>(nx, ny)\<close> sets its anchor
  there and translates its drawing by the delta from the old anchor, leaving every other field;
  \<open>handleUpdateCommentPosition\<close> moves so the comments with the given id in the versions
  with the active id and changes nothing else. Moving a comment anchored at \<open>(ox, oy)\<close> by
  \<open>(dx, dy)\<close> and back restores the comment, and, where the comments with that id are
  anchored at \<open>(ox, oy)\<close>, the two calls restore the room.
\<close>

theorem round_trip_translate:
  "(d_type D = Pen \<and> d_points D = Some pts \<longrightarrow>
      translateDrawing dx dy D = D\<lparr>d_points := Some (map (\<lambda>p. \<lparr>p_x = p_x p + dx, p_y = p_y p + dy\<rparr>) pts)\<rparr>)
   \<and> (d_type D = Box \<and> d_rect D = Some rect \<longrightarrow>
      translateDrawing dx dy D =
        D\<lparr>d_rect := Some \<lparr>r_x = r_x rect + dx, r_y = r_y rect + dy, r_w = r_w rect, r_h = r_h rect\<rparr>\<rparr>)
   \<and> translateDrawing (- dx) (- dy) (translateDrawing dx dy D) = D
   \<and> d_color (translateDrawing dx dy D) = d_color D
   \<and> map_option r_w (d_rect (translateDrawing dx dy D)) = map_option r_w (d_rect D)
   \<and> map_option r_h (d_rect (translateDrawing dx dy D)) = map_option r_h (d_rect D)
   \<and> moveComment nx ny c =
        Comment (c_id c) (c_userId c) (c_text c) (c_timestamp c) (c_resolved c) (Some nx) (Some ny)
          (c_videoTimestamp c)
          (map_option (translateDrawing (nx - orZero (c_x c)) (ny - orZero (c_y c))) (c_drawing c))
          (c_replies c) (c_isInternal c)
   \<and> (c_x c = Some ox \<and> c_y c = Some oy \<longrightarrow>
        c_x (moveComment (ox + dx) (oy + dy) c) = Some (ox + dx)
      \<and> c_y (moveComment (ox + dx) (oy + dy) c) = Some (oy + dy)
      \<and> c_drawing (moveComment (ox + dx) (oy + dy) c) = map_option (translateDrawing dx dy) (c_drawing c)
      \<and> moveComment ox oy (moveComment (ox + dx) (oy + dy) c) = c)
   \<and> handleUpdateCommentPosition st ident nx ny =
        st\<lparr>versions :=
             map (\<lambda>v. if v_id v = activeVersionId st
                       then v\<lparr>v_comments := map (\<lambda>k. if c_id k = ident then moveComment nx ny k else k)
                                                 (v_comments v)\<rparr>
                       else v)
               (versions st)\<rparr>
   \<and> ((\<forall>v \<in> set (versions st). \<forall>k \<in> set (v_comments v).
          c_id k = ident \<longrightarrow> c_x k = Some ox \<and> c_y k = Some oy) \<longrightarrow>
        handleUpdateCommentPosition (handleUpdateCommentPosition st ident (ox + dx) (oy + dy)) ident ox oy = st)"
proof -
  have pen: "d_type D = Pen \<and> d_points D = Some pts \<longrightarrow>
      translateDrawing dx dy D = D\<lparr>d_points := Some (map (\<lambda>p. \<lparr>p_x = p_x p + dx, p_y = p_y p + dy\<rparr>) pts)\<rparr>"
    by (simp add: translateDrawing_def split: option.splits)
  have box: "d_type D = Box \<and> d_rect D = Some rect \<longrightarrow>
      translateDrawing dx dy D =
        D\<lparr>d_rect := Some \<lparr>r_x = r_x rect + dx, r_y = r_y rect + dy, r_w = r_w rect, r_h = r_h rect\<rparr>\<rparr>"
    by (simp add: translateDrawing_def)
  have mv: "moveComment nx ny c =
        Comment (c_id c) (c_userId c) (c_text c) (c_timestamp c) (c_resolved c) (Some nx) (Some ny)
          (c_videoTimestamp c)
          (map_option (translateDrawing (nx - orZero (c_x c)) (ny - orZero (c_y c))) (c_drawing c))
          (c_replies c) (c_isInternal c)"
    by (simp add: moveComment_def Let_def)
  have "(\<lambda>v. if v_id v \<noteq> activeVersionId st then v
                    else v\<lparr>v_comments :=
                            map (\<lambda>c. if c_id c \<noteq> ident then c else moveComment nx ny c)
                              (v_comments v)\<rparr>)
      = (\<lambda>v. if v_id v = activeVersionId st
                       then v\<lparr>v_comments := map (\<lambda>k. if c_id k = ident then moveComment nx ny k else k)
                                                 (v_comments v)\<rparr>
                       else v)"
    by (intro ext) (auto intro!: arg_cong [where f = "\<lambda>cs. v\<lparr>v_comments := cs\<rparr>" for v])
  then have hu: "handleUpdateCommentPosition st ident nx ny =
        st\<lparr>versions :=
             map (\<lambda>v. if v_id v = activeVersionId st
                       then v\<lparr>v_comments := map (\<lambda>k. if c_id k = ident then moveComment nx ny k else k)
                                                 (v_comments v)\<rparr>
                       else v)
               (versions st)\<rparr>"
    by (simp add: handleUpdateCommentPosition_def)
  from round_trip_core [of dx dy D c ox oy st ident] pen box mv hu
  show ?thesis by blast
qed


section \<open>Gestures on the annotation layer\<close>

lemma getPoint_bounds_cong:
  "boundsRef L' = boundsRef L \<Longrightarrow> getPoint L' e = getPoint L e"
  by (simp add: getPoint_def)

lemma handleMouseDown_pen:
  assumes "lp_drawingTool P = pen" and "\<not> lp_isCompareMode P" and "\<not> truthy (draggedCommentId L)"
  shows "isDrawing (handleMouseDown P L e0)"
    and "draggedCommentId (handleMouseDown P L e0) = draggedCommentId L"
    and "currentPath (handleMouseDown P L e0) = [getPoint (handleMouseDown P L e0) e0]"
    and "boundsRef (handleMouseDown P L e0) = (case containerRect e0 of Some r \<Rightarrow> Some r | None \<Rightarrow> boundsRef L)"
  using assms by (auto simp: handleMouseDown_def Let_def getPoint_def split: option.splits)

lemma handleMouseDown_box:
  assumes "lp_drawingTool P = box" and "\<not> lp_isCompareMode P" and "\<not> truthy (draggedCommentId L)"
  shows "isDrawing (handleMouseDown P L e0)"
    and "draggedCommentId (handleMouseDown P L e0) = draggedCommentId L"
    and "currentStart (handleMouseDown P L e0) = Some (getPoint (handleMouseDown P L e0) e0)"
    and "currentRect (handleMouseDown P L e0) = Some (minCornerRect (getPoint (handleMouseDown P L e0) e0) (getPoint (handleMouseDown P L e0) e0))"
    and "boundsRef (handleMouseDown P L e0) = (case containerRect e0 of Some r \<Rightarrow> Some r | None \<Rightarrow> boundsRef L)"
  using assms by (auto simp: handleMouseDown_def Let_def getPoint_def minCornerRect_def split: option.splits)

lemma mouseMoves_pen:
  assumes "lp_drawingTool P = pen" and "isDrawing L" and "\<not> truthy (draggedCommentId L)"
  shows "mouseMoves P L es = L\<lparr>currentPath := currentPath L @ map (getPoint L) es\<rparr>"
  using assms(2,3)
proof (induction es arbitrary: L)
  case Nil
  then show ?case by simp
next
  case (Cons e es)
  let ?L1 = "L\<lparr>currentPath := currentPath L @ [getPoint L e]\<rparr>"
  have step: "handleMouseMove P L e = ?L1"
    using Cons.prems assms(1) by (simp add: handleMouseMove_def Let_def)
  have gp: "getPoint ?L1 = getPoint L"
    by (rule ext) (simp add: getPoint_def)
  have "mouseMoves P ?L1 es = ?L1\<lparr>currentPath := currentPath ?L1 @ map (getPoint ?L1) es\<rparr>"
    by (rule Cons.IH) (use Cons.prems in simp_all)
  then show ?case by (simp add: step gp)
qed

lemma handleMouseMove_box:
  assumes "lp_drawingTool P = box" and "isDrawing L" and "\<not> truthy (draggedCommentId L)"
    and "currentStart L = Some a"
  shows "handleMouseMove P L e = L\<lparr>currentRect := Some (minCornerRect a (getPoint L e))\<rparr>"
  using assms by (auto simp: handleMouseMove_def Let_def minCornerRect_def min_def)

lemma mouseMoves_box:
  assumes "lp_drawingTool P = box" and "isDrawing L" and "\<not> truthy (draggedCommentId L)"
    and "currentStart L = Some a"
  shows "mouseMoves P L es =
           L\<lparr>currentRect := (if es = [] then currentRect L else Some (minCornerRect a (getPoint L (last es))))\<rparr>"
  using assms(2,3,4)
proof (induction es arbitrary: L)
  case Nil
  then show ?case by simp
next
  case (Cons e es)
  let ?L1 = "L\<lparr>currentRect := Some (minCornerRect a (getPoint L e))\<rparr>"
  have step: "handleMouseMove P L e = ?L1"
    by (rule handleMouseMove_box [OF assms(1) Cons.prems])
  have gp: "getPoint ?L1 = getPoint L"
    by (rule ext) (simp add: getPoint_def)
  have "mouseMoves P ?L1 es =
          ?L1\<lparr>currentRect := (if es = [] then currentRect ?L1 else Some (minCornerRect a (getPoint ?L1 (last es))))\<rparr>"
    by (rule Cons.IH) (use Cons.prems in simp_all)
  then show ?case by (simp add: step gp)
qed

lemma gesture_pen:
  assumes "lp_drawingTool P = pen" and "\<not> lp_isCompareMode P" and "\<not> truthy (draggedCommentId L)"
  shows "currentPath (mouseMoves P (handleMouseDown P L e0) es)
           = getPoint (handleMouseDown P L e0) e0 # map (getPoint (handleMouseDown P L e0)) es"
    and "snd (gesture P L e0 es eUp) =
           (if es = [] then None
            else Some (AddComment (p_x (getPoint (handleMouseDown P L e0) e0))
                                  (p_y (getPoint (handleMouseDown P L e0) e0))
                                  (Some \<lparr>d_type = Pen,
                                         d_points = Some (getPoint (handleMouseDown P L e0) e0
                                                          # map (getPoint (handleMouseDown P L e0)) es),
                                         d_rect = None, d_color = lp_color P\<rparr>)))"
proof -
  let ?L1 = "handleMouseDown P L e0"
  note d = handleMouseDown_pen [OF assms, of e0]
  have mm: "mouseMoves P ?L1 es = ?L1\<lparr>currentPath := currentPath ?L1 @ map (getPoint ?L1) es\<rparr>"
    by (rule mouseMoves_pen [OF assms(1) d(1)]) (simp add: d(2) assms(3))
  show "currentPath (mouseMoves P ?L1 es) = getPoint ?L1 e0 # map (getPoint ?L1) es"
    by (simp add: mm d(3))
  show "snd (gesture P L e0 es eUp) =
           (if es = [] then None
            else Some (AddComment (p_x (getPoint ?L1 e0)) (p_y (getPoint ?L1 e0))
                                  (Some \<lparr>d_type = Pen,
                                         d_points = Some (getPoint ?L1 e0 # map (getPoint ?L1) es),
                                         d_rect = None, d_color = lp_color P\<rparr>)))"
    unfolding gesture_def mm
    using assms(1,3) d(1,2,3) by (simp add: handleMouseUp_def split: option.splits)
qed

lemma gesture_box:
  fixes P :: LayerProps and L :: Layer and e0 :: MouseEvent and es :: "MouseEvent list"
  assumes "lp_drawingTool P = box" and "\<not> lp_isCompareMode P" and "\<not> truthy (draggedCommentId L)"
  defines "a \<equiv> getPoint (handleMouseDown P L e0) e0"
  defines "r \<equiv> minCornerRect a (if es = [] then a else getPoint (handleMouseDown P L e0) (last es))"
  shows "currentRect (mouseMoves P (handleMouseDown P L e0) es) = Some r"
    and "snd (gesture P L e0 es eUp) =
           (if r_w r > 1 \<or> r_h r > 1
            then Some (AddComment (r_x r + r_w r) (r_y r)
                         (Some \<lparr>d_type = Box, d_points = None, d_rect = Some r, d_color = lp_color P\<rparr>))
            else None)"
proof -
  let ?L1 = "handleMouseDown P L e0"
  note d = handleMouseDown_box [OF assms(1,2,3), of e0]
  have mm: "mouseMoves P ?L1 es =
      ?L1\<lparr>currentRect := (if es = [] then currentRect ?L1 else Some (minCornerRect a (getPoint ?L1 (last es))))\<rparr>"
    by (rule mouseMoves_box [OF assms(1) d(1)]) (simp_all add: d(2,3) assms(3) a_def)
  show cr: "currentRect (mouseMoves P ?L1 es) = Some r"
    by (simp add: mm d(4) r_def a_def)
  have "snd (handleMouseUp P (mouseMoves P ?L1 es) eUp) =
           (if r_w r > 1 \<or> r_h r > 1
            then Some (AddComment (r_x r + r_w r) (r_y r)
                         (Some \<lparr>d_type = Box, d_points = None, d_rect = Some r, d_color = lp_color P\<rparr>))
            else None)"
    using cr unfolding mm
    using assms(1,3) d(1,2) by (simp add: handleMouseUp_def split: option.splits)
  then show "snd (gesture P L e0 es eUp) =
           (if r_w r > 1 \<or> r_h r > 1
            then Some (AddComment (r_x r + r_w r) (r_y r)
                         (Some \<lparr>d_type = Box, d_points = None, d_rect = Some r, d_color = lp_color P\<rparr>))
            else None)"
    by (simp add: gesture_def)
qed

lemma handleMouseDown_dragged:
  "draggedCommentId (handleMouseDown P L e) = draggedCommentId L"
  by (simp add: handleMouseDown_def Let_def split: option.splits)

lemma handleMouseMove_dragged:
  "draggedCommentId (handleMouseMove P L e) = draggedCommentId L"
  by (simp add: handleMouseMove_def Let_def split: option.splits)

lemma mouseMoves_dragged:
  "draggedCommentId (mouseMoves P L es) = draggedCommentId L"
  by (induction es arbitrary: L) (simp_all add: handleMouseMove_dragged)

lemma handleMouseUp_not_dragged:
  assumes "\<not> truthy (draggedCommentId L)"
  shows "snd (handleMouseUp P L e) = None \<or> (\<exists>x y d. snd (handleMouseUp P L e) = Some (AddComment x y d))"
  using assms by (simp add: handleMouseUp_def Let_def split: option.splits)

lemma gesture_not_dragged:
  assumes "\<not> truthy (draggedCommentId L)"
  shows "snd (gesture P L e0 es eUp) = None \<or> (\<exists>x y d. snd (gesture P L e0 es eUp) = Some (AddComment x y d))"
  unfolding gesture_def
  by (rule handleMouseUp_not_dragged) (simp add: mouseMoves_dragged handleMouseDown_dragged assms)

text \<open>
  Claim C9 (permission-denial atomicity). For an Observer, or in compare mode,
  \<open>handleAddComment\<close> returns the room as it was, without an error: versions and comments,
  the selected comment and the tool are unchanged. So does every gesture on the layer that
  starts while no pin is being dragged.
\<close>

theorem permission_denial_atomicity:
  assumes "userRole props = OBSERVER \<or> isCompareMode st"
  shows "handleAddComment props tId tStamp st x y d = Inr st
       \<and> (\<not> truthy (draggedCommentId L) \<longrightarrow> roomGesture props tId tStamp st L e0 es eUp = Inr st)"
proof (intro conjI impI)
  show "handleAddComment props tId tStamp st x y d = Inr st"
    by (rule handleAddComment_refused [OF assms])
next
  assume "\<not> truthy (draggedCommentId L)"
  from gesture_not_dragged [OF this, of "layerProps st" e0 es eUp]
  show "roomGesture props tId tStamp st L e0 es eUp = Inr st"
    by (auto simp: roomGesture_def layerCall_def handleAddComment_refused [OF assms])
qed

text \<open>
  Claim C4 (box normalization). In a box gesture with anchor \<open>a\<close> (the point of the
  mouse-down) the rectangle stored after a move to \<open>p\<close> is the min-corner with the positive
  extent: \<open>x = min ax px\<close>, \<open>y = min ay py\<close>, \<open>w = |px - ax|\<close>, \<open>h = |py - ay|\<close>,
  whatever the direction of the drag and whatever moves came before.
\<close>

theorem box_normalization:
  assumes "lp_drawingTool P = box" and "\<not> lp_isCompareMode P" and "\<not> truthy (draggedCommentId L)"
  shows "let L1 = handleMouseDown P L e0; a = getPoint L1 e0; p = getPoint L1 e
         in currentRect (mouseMoves P L1 (es @ [e])) =
              Some \<lparr>r_x = min (p_x a) (p_x p), r_y = min (p_y a) (p_y p),
                    r_w = \<bar>p_x p - p_x a\<bar>, r_h = \<bar>p_y p - p_y a\<bar>\<rparr>"
  using gesture_box(1) [OF assms, of e0 "es @ [e]"] by (simp add: Let_def minCornerRect_def)

lemma layerProps_simps:
  "lp_drawingTool (layerProps st) = drawingTool st"
  "lp_isCompareMode (layerProps st) = False"
  "lp_color (layerProps st) = toolColor st"
  by (simp_all add: layerProps_def)

lemma roomGesture_commit:
  assumes call: "snd (gesture (layerProps st) L e0 es eUp) = Some (AddComment x y d)"
    and "activeVersion st = Some av" and "userRole props \<noteq> OBSERVER" and "\<not> isCompareMode st"
  shows "\<exists>st' c. roomGesture props tId tStamp st L e0 es eUp = Inr st'
           \<and> activeVersion st' = Some (av\<lparr>v_comments := c # v_comments av\<rparr>)
           \<and> c_x c = Some x \<and> c_y c = Some y \<and> c_drawing c = d"
proof -
  obtain st' where "handleAddComment props tId tStamp st x y d = Inr st'"
    and "activeVersion st' = Some (av\<lparr>v_comments := newComment props tId tStamp st x y d # v_comments av\<rparr>)"
    using handleAddComment_commits [OF assms(2,3,4)] by blast
  then show ?thesis
    by (intro exI [of _ st'] exI [of _ "newComment props tId tStamp st x y d"])
       (simp add: roomGesture_def layerCall_def call newComment_def)
qed

lemma roomGesture_discard:
  assumes "snd (gesture (layerProps st) L e0 es eUp) = None"
  shows "roomGesture props tId tStamp st L e0 es eUp = Inr st"
  by (simp add: roomGesture_def layerCall_def assms)

text \<open>
  Claim C3 (discard thresholds), as amended. A pen gesture whose captured path has exactly one
  point commits no comment. A box gesture whose final rectangle has \<open>w \<le> 1\<close> and
  \<open>h \<le> 1\<close> commits no comment. A pen gesture with two or more points, or a box gesture
  with \<open>w > 1\<close> or \<open>h > 1\<close>, commits exactly one comment, at the head of the active
  version's comments, provided the actor is not an Observer and compare mode is off.
\<close>

theorem discard_thresholds:
  assumes "\<not> truthy (draggedCommentId L)"
  shows "(drawingTool st = pen \<longrightarrow>
           (length (currentPath (mouseMoves (layerProps st) (handleMouseDown (layerProps st) L e0) es)) = 1
              \<longrightarrow> roomGesture props tId tStamp st L e0 es eUp = Inr st)
         \<and> (2 \<le> length (currentPath (mouseMoves (layerProps st) (handleMouseDown (layerProps st) L e0) es))
              \<and> userRole props \<noteq> OBSERVER \<and> \<not> isCompareMode st \<and> activeVersion st = Some av
              \<longrightarrow> (\<exists>st' c. roomGesture props tId tStamp st L e0 es eUp = Inr st'
                     \<and> activeVersion st' = Some (av\<lparr>v_comments := c # v_comments av\<rparr>))))
       \<and> (drawingTool st = box \<longrightarrow>
           (\<exists>r. currentRect (mouseMoves (layerProps st) (handleMouseDown (layerProps st) L e0) es) = Some r
              \<and> (r_w r \<le> 1 \<and> r_h r \<le> 1 \<longrightarrow> roomGesture props tId tStamp st L e0 es eUp = Inr st)
              \<and> ((r_w r > 1 \<or> r_h r > 1)
                    \<and> userRole props \<noteq> OBSERVER \<and> \<not> isCompareMode st \<and> activeVersion st = Some av
                  \<longrightarrow> (\<exists>st' c. roomGesture props tId tStamp st L e0 es eUp = Inr st'
                         \<and> activeVersion st' = Some (av\<lparr>v_comments := c # v_comments av\<rparr>)))))"
proof (intro conjI impI)
  assume tool: "drawingTool st = pen"
  have tp: "lp_drawingTool (layerProps st) = pen" and nc: "\<not> lp_isCompareMode (layerProps st)"
    by (simp_all add: layerProps_simps tool)
  note g = gesture_pen [OF tp nc assms, unfolded layerProps_simps(3)]
  {
    assume "length (currentPath (mouseMoves (layerProps st) (handleMouseDown (layerProps st) L e0) es)) = 1"
    then have "es = []" by (simp add: g(1))
    then show "roomGesture props tId tStamp st L e0 es eUp = Inr st"
      by (intro roomGesture_discard) (simp add: g(2))
  }
  {
    assume h: "2 \<le> length (currentPath (mouseMoves (layerProps st) (handleMouseDown (layerProps st) L e0) es))
              \<and> userRole props \<noteq> OBSERVER \<and> \<not> isCompareMode st \<and> activeVersion st = Some av"
    then have "es \<noteq> []" by (auto simp: g(1))
    then obtain x y d where "snd (gesture (layerProps st) L e0 es eUp) = Some (AddComment x y d)"
      by (simp add: g(2))
    from roomGesture_commit [OF this, of av props tId tStamp] h
    show "\<exists>st' c. roomGesture props tId tStamp st L e0 es eUp = Inr st'
                     \<and> activeVersion st' = Some (av\<lparr>v_comments := c # v_comments av\<rparr>)"
      by blast
  }
next
  assume tool: "drawingTool st = box"
  have tp: "lp_drawingTool (layerProps st) = box" and nc: "\<not> lp_isCompareMode (layerProps st)"
    by (simp_all add: layerProps_simps tool)
  note g = gesture_box [OF tp nc assms, unfolded layerProps_simps(3)]
  let ?P = "layerProps st"
  let ?a = "getPoint (handleMouseDown ?P L e0) e0"
  let ?r = "minCornerRect ?a (if es = [] then ?a else getPoint (handleMouseDown ?P L e0) (last es))"
  have cr: "currentRect (mouseMoves ?P (handleMouseDown ?P L e0) es) = Some ?r"
    using g(1) by simp
  have small: "roomGesture props tId tStamp st L e0 es eUp = Inr st" if "r_w ?r \<le> 1 \<and> r_h ?r \<le> 1"
    using that by (intro roomGesture_discard) (simp add: g(2))
  have big: "\<exists>st' c. roomGesture props tId tStamp st L e0 es eUp = Inr st'
                         \<and> activeVersion st' = Some (av\<lparr>v_comments := c # v_comments av\<rparr>)"
    if h: "(r_w ?r > 1 \<or> r_h ?r > 1)
                    \<and> userRole props \<noteq> OBSERVER \<and> \<not> isCompareMode st \<and> activeVersion st = Some av"
  proof -
    from h obtain x y d where "snd (gesture (layerProps st) L e0 es eUp) = Some (AddComment x y d)"
      by (simp add: g(2))
    from roomGesture_commit [OF this, of av props tId tStamp] h show ?thesis by blast
  qed
  show "\<exists>r. currentRect (mouseMoves ?P (handleMouseDown ?P L e0) es) = Some r
              \<and> (r_w r \<le> 1 \<and> r_h r \<le> 1 \<longrightarrow> roomGesture props tId tStamp st L e0 es eUp = Inr st)
              \<and> ((r_w r > 1 \<or> r_h r > 1)
                    \<and> userRole props \<noteq> OBSERVER \<and> \<not> isCompareMode st \<and> activeVersion st = Some av
                  \<longrightarrow> (\<exists>st' c. roomGesture props tId tStamp st L e0 es eUp = Inr st'
                         \<and> activeVersion st' = Some (av\<lparr>v_comments := c # v_comments av\<rparr>)))"
    using cr small big by blast
qed

text \<open>
  Claim C10 (pin anchor of a committed drawing). The comment committed by a box gesture is
  anchored at the top-right corner of the final rectangle, \<open>(rect.x + rect.w, rect.y)\<close>, and
  carries that rectangle. The comment committed by a pen gesture is anchored at the first
  point of the captured path and carries the path; that first point is the normalized position
  of the mouse-down, \<open>((clientX - left) / width * 100, (clientY - top) / height * 100)\<close>,
  with no clamping to [0, 100].
\<close>

theorem commit_pin_anchor:
  assumes "\<not> truthy (draggedCommentId L)" and "userRole props \<noteq> OBSERVER"
    and "\<not> isCompareMode st" and "activeVersion st = Some av"
  shows "(drawingTool st = box \<longrightarrow>
           (\<forall>r. currentRect (mouseMoves (layerProps st) (handleMouseDown (layerProps st) L e0) es) = Some r
                 \<and> (r_w r > 1 \<or> r_h r > 1)
              \<longrightarrow> (\<exists>st' c. roomGesture props tId tStamp st L e0 es eUp = Inr st'
                     \<and> activeVersion st' = Some (av\<lparr>v_comments := c # v_comments av\<rparr>)
                     \<and> c_x c = Some (r_x r + r_w r) \<and> c_y c = Some (r_y r)
                     \<and> c_drawing c = Some \<lparr>d_type = Box, d_points = None, d_rect = Some r,
                                             d_color = toolColor st\<rparr>)))
       \<and> (drawingTool st = pen \<longrightarrow>
           (\<forall>p0 ps. currentPath (mouseMoves (layerProps st) (handleMouseDown (layerProps st) L e0) es) = p0 # ps
                 \<and> ps \<noteq> []
              \<longrightarrow> (\<exists>st' c. roomGesture props tId tStamp st L e0 es eUp = Inr st'
                     \<and> activeVersion st' = Some (av\<lparr>v_comments := c # v_comments av\<rparr>)
                     \<and> c_x c = Some (p_x p0) \<and> c_y c = Some (p_y p0)
                     \<and> c_drawing c = Some \<lparr>d_type = Pen, d_points = Some (p0 # ps), d_rect = None,
                                             d_color = toolColor st\<rparr>))
         \<and> (\<forall>b. containerRect e0 = Some b \<longrightarrow>
               hd (currentPath (mouseMoves (layerProps st) (handleMouseDown (layerProps st) L e0) es))
                 = \<lparr>p_x = ((clientX e0 - b_left b) / b_width b) * 100,
                    p_y = ((clientY e0 - b_top b) / b_height b) * 100\<rparr>))"
proof (intro conjI impI allI)
  fix r
  assume tool: "drawingTool st = box"
    and r: "currentRect (mouseMoves (layerProps st) (handleMouseDown (layerProps st) L e0) es) = Some r
                 \<and> (r_w r > 1 \<or> r_h r > 1)"
  have tp: "lp_drawingTool (layerProps st) = box" and nc: "\<not> lp_isCompareMode (layerProps st)"
    by (simp_all add: layerProps_simps tool)
  note g = gesture_box [OF tp nc assms(1), unfolded layerProps_simps(3)]
  from r g(1) have req: "minCornerRect (getPoint (handleMouseDown (layerProps st) L e0) e0)
      (if es = [] then getPoint (handleMouseDown (layerProps st) L e0) e0
       else getPoint (handleMouseDown (layerProps st) L e0) (last es)) = r"
    by simp
  have "snd (gesture (layerProps st) L e0 es eUp) =
      Some (AddComment (r_x r + r_w r) (r_y r)
              (Some \<lparr>d_type = Box, d_points = None, d_rect = Some r, d_color = toolColor st\<rparr>))"
    using g(2) [of e0 es eUp] r unfolding req by simp
  from roomGesture_commit [OF this assms(4,2,3), of tId tStamp]
  show "\<exists>st' c. roomGesture props tId tStamp st L e0 es eUp = Inr st'
                     \<and> activeVersion st' = Some (av\<lparr>v_comments := c # v_comments av\<rparr>)
                     \<and> c_x c = Some (r_x r + r_w r) \<and> c_y c = Some (r_y r)
                     \<and> c_drawing c = Some \<lparr>d_type = Box, d_points = None, d_rect = Some r,
                                             d_color = toolColor st\<rparr>"
    by blast
next
  fix p0 ps
  assume tool: "drawingTool st = pen"
    and p: "currentPath (mouseMoves (layerProps st) (handleMouseDown (layerProps st) L e0) es) = p0 # ps
                 \<and> ps \<noteq> []"
  have tp: "lp_drawingTool (layerProps st) = pen" and nc: "\<not> lp_isCompareMode (layerProps st)"
    by (simp_all add: layerProps_simps tool)
  note g = gesture_pen [OF tp nc assms(1), unfolded layerProps_simps(3)]
  from p g(1) have p0: "getPoint (handleMouseDown (layerProps st) L e0) e0 = p0"
    and ps: "map (getPoint (handleMouseDown (layerProps st) L e0)) es = ps" and "es \<noteq> []"
    by auto
  then have "snd (gesture (layerProps st) L e0 es eUp) =
      Some (AddComment (p_x p0) (p_y p0)
              (Some \<lparr>d_type = Pen, d_points = Some (p0 # ps), d_rect = None, d_color = toolColor st\<rparr>))"
    using g(2) by simp
  from roomGesture_commit [OF this assms(4,2,3), of tId tStamp]
  show "\<exists>st' c. roomGesture props tId tStamp st L e0 es eUp = Inr st'
                     \<and> activeVersion st' = Some (av\<lparr>v_comments := c # v_comments av\<rparr>)
                     \<and> c_x c = Some (p_x p0) \<and> c_y c = Some (p_y p0)
                     \<and> c_drawing c = Some \<lparr>d_type = Pen, d_points = Some (p0 # ps), d_rect = None,
                                             d_color = toolColor st\<rparr>"
    by blast
next
  fix b
  assume tool: "drawingTool st = pen" and b: "containerRect e0 = Some b"
  have tp: "lp_drawingTool (layerProps st) = pen" and nc: "\<not> lp_isCompareMode (layerProps st)"
    by (simp_all add: layerProps_simps tool)
  note g = gesture_pen [OF tp nc assms(1), unfolded layerProps_simps(3)]
  note d = handleMouseDown_pen [OF tp nc assms(1)]
  show "hd (currentPath (mouseMoves (layerProps st) (handleMouseDown (layerProps st) L e0) es))
                 = \<lparr>p_x = ((clientX e0 - b_left b) / b_width b) * 100,
                    p_y = ((clientY e0 - b_top b) / b_height b) * 100\<rparr>"
    by (simp add: g(1) getPoint_def d(4) b normalized_def)
qed

section \<open>The properties on the example data\<close>

lemma ex_active: "activeVersion (exRoom tool status) = Some exV2"
  by (simp add: activeVersion_def exRoom_def exV2_def)

text \<open>
  The zoom anchor on the example: a wheel delta of -100 at (300, 200) takes zoom 1 and pan
  (0, 0) to zoom 1.2 and pan (-40, -30).
\<close>

theorem zoom_anchor_invariance_witness:
  "0.1 \<le> zoom (exRoom pointer PENDING) \<and> zoom (exRoom pointer PENDING) \<le> 5
   \<and> viewportRect (exWheel (- 100)) = Some exViewport
   \<and> zoom (handleWheel (exRoom pointer PENDING) (exWheel (- 100))) = 1.2
   \<and> pan (handleWheel (exRoom pointer PENDING) (exWheel (- 100))) = \<lparr>p_x = - 40, p_y = - 30\<rparr>
   \<and> normalized (containerBounds exViewport exLayout 1.2 \<lparr>p_x = - 40, p_y = - 30\<rparr>) 300 200
     = normalized (containerBounds exViewport exLayout 1 \<lparr>p_x = 0, p_y = 0\<rparr>) 300 200"
proof -
  have h1: "0.1 \<le> zoom (exRoom pointer PENDING)" and h2: "zoom (exRoom pointer PENDING) \<le> 5"
    and h3: "viewportRect (exWheel (- 100)) = Some exViewport"
    by (simp_all add: exRoom_def exWheel_def)
  have z: "zoom (handleWheel (exRoom pointer PENDING) (exWheel (- 100))) = 1.2"
    and p: "pan (handleWheel (exRoom pointer PENDING) (exWheel (- 100))) = \<lparr>p_x = - 40, p_y = - 30\<rparr>"
    by (simp_all add: handleWheel_def exRoom_def exWheel_def exViewport_def Let_def)
  have e: "w_clientX (exWheel (- 100)) = 300" "w_clientY (exWheel (- 100)) = 200"
    "zoom (exRoom pointer PENDING) = 1" "pan (exRoom pointer PENDING) = \<lparr>p_x = 0, p_y = 0\<rparr>"
    by (simp_all add: exRoom_def exWheel_def)
  from zoom_anchor_invariance [OF h1 h2 h3, of exLayout]
  have "normalized (containerBounds exViewport exLayout 1.2 \<lparr>p_x = - 40, p_y = - 30\<rparr>) 300 200
     = normalized (containerBounds exViewport exLayout 1 \<lparr>p_x = 0, p_y = 0\<rparr>) 300 200"
    unfolding Let_def z p e by (elim conjE)
  with h1 h2 h3 z p show ?thesis by (intro conjI)
qed

text \<open>
  The zoom range on a run of operations with extreme wheel deltas, and the bound on the pan
  for a wheel event at (300, 200) in the example room.
\<close>

theorem zoom_clamp_invariant_witness:
  "0.1 \<le> zoom (exRoom pointer PENDING) \<and> zoom (exRoom pointer PENDING) \<le> 5
   \<and> viewportRect (exWheel (- 100)) = Some exViewport
   \<and> \<bar>w_clientX (exWheel (- 100)) - b_left exViewport\<bar> \<le> 200
   \<and> \<bar>p_x (pan (exRoom pointer PENDING))\<bar> \<le> 200
   \<and> \<bar>w_clientY (exWheel (- 100)) - b_top exViewport\<bar> \<le> 200
   \<and> \<bar>p_y (pan (exRoom pointer PENDING))\<bar> \<le> 200
   \<and> 101 * (200::real) < 2 ^ 1024
   \<and> 0.1 \<le> zoom (zoomOps (exRoom pointer PENDING) exOps)
   \<and> zoom (zoomOps (exRoom pointer PENDING) exOps) \<le> 5
   \<and> \<bar>p_x (pan (handleWheel (exRoom pointer PENDING) (exWheel (- 100))))\<bar> \<le> 101 * 200
   \<and> \<bar>p_y (pan (handleWheel (exRoom pointer PENDING) (exWheel (- 100))))\<bar> \<le> 101 * 200
   \<and> \<not> overflows (p_x (pan (handleWheel (exRoom pointer PENDING) (exWheel (- 100)))))
   \<and> \<not> overflows (p_y (pan (handleWheel (exRoom pointer PENDING) (exWheel (- 100)))))"
proof -
  have h1: "0.1 \<le> zoom (exRoom pointer PENDING)" and h2: "zoom (exRoom pointer PENDING) \<le> 5"
    by (simp_all add: exRoom_def)
  have v: "viewportRect (exWheel (- 100)) = Some exViewport" by (simp add: exWheel_def)
  have b: "\<bar>w_clientX (exWheel (- 100)) - b_left exViewport\<bar> \<le> 200"
    "\<bar>p_x (pan (exRoom pointer PENDING))\<bar> \<le> 200"
    "\<bar>w_clientY (exWheel (- 100)) - b_top exViewport\<bar> \<le> 200"
    "\<bar>p_y (pan (exRoom pointer PENDING))\<bar> \<le> 200"
    by (simp_all add: exWheel_def exViewport_def exRoom_def)
  have small: "101 * (200::real) < 2 ^ 1024"
  proof -
    have "(2::real) ^ 15 \<le> 2 ^ 1024" by (rule power_increasing) simp_all
    then show ?thesis by simp
  qed
  note T = zoom_clamp_invariant [OF h1 h2, of exOps "exWheel (- 100)"]
  from T have z: "0.1 \<le> zoom (zoomOps (exRoom pointer PENDING) exOps)"
    "zoom (zoomOps (exRoom pointer PENDING) exOps) \<le> 5"
    by blast+
  from T v b small
  have p: "\<bar>p_x (pan (handleWheel (exRoom pointer PENDING) (exWheel (- 100))))\<bar> \<le> 101 * 200"
    "\<bar>p_y (pan (handleWheel (exRoom pointer PENDING) (exWheel (- 100))))\<bar> \<le> 101 * 200"
    "\<not> overflows (p_x (pan (handleWheel (exRoom pointer PENDING) (exWheel (- 100)))))"
    "\<not> overflows (p_y (pan (handleWheel (exRoom pointer PENDING) (exWheel (- 100)))))"
    by blast+
  from h1 h2 v b small z p show ?thesis by (intro conjI)
qed

text \<open>
  The approval gate on the example: two unresolved comments and a resolved one; the Approver is
  refused, and is served after the two have been resolved.
\<close>

theorem approval_gate_witness:
  "activeVersion (exRoom pointer PENDING) = Some exV2
   \<and> userRole (exProps APPROVER) = APPROVER
   \<and> openTasks exV2 = [exC1, exC2]
   \<and> c_id ` set (openTasks exV2) \<subseteq> set [''c1'', ''c2'']
   \<and> approve (exProps APPROVER) (exRoom pointer PENDING) = Inr (exRoom pointer PENDING)
   \<and> (\<exists>st'. resolveAll (exRoom pointer PENDING) [''c1'', ''c2''] = Inr st'
          \<and> approve (exProps APPROVER) st' = Inr (st'\<lparr>currentAssetStatus := APPROVED\<rparr>))"
proof -
  have av: "activeVersion (exRoom pointer PENDING) = Some exV2" by (rule ex_active)
  have u: "openTasks exV2 = [exC1, exC2]"
    by (simp add: openTasks_def exV2_def exC1_def exC2_def exC3_def)
  have r: "userRole (exProps APPROVER) = APPROVER" by (simp add: exProps_def)
  have ne: "openTasks exV2 \<noteq> []" by (simp add: u)
  have s: "c_id ` set (openTasks exV2) \<subseteq> set [''c1'', ''c2'']"
    by (simp add: u exC1_def exC2_def)
  from approval_gate [OF av, where props = "exProps APPROVER" and ids = "[''c1'', ''c2'']"] r ne s
  have "approve (exProps APPROVER) (exRoom pointer PENDING) = Inr (exRoom pointer PENDING)
   \<and> (\<exists>st'. resolveAll (exRoom pointer PENDING) [''c1'', ''c2''] = Inr st'
          \<and> approve (exProps APPROVER) st' = Inr (st'\<lparr>currentAssetStatus := APPROVED\<rparr>))"
    by blast
  with av r u s show ?thesis by blast
qed

text \<open>The internal top-level comment of the example is hidden from the Approver and shown to the Creator.\<close>

lemma visibleComments_top_level_example:
  "activeVersion (exRoom pointer PENDING) = Some exV2
   \<and> exC2 \<in> set (v_comments exV2) \<and> c_isInternal exC2 = Some True
   \<and> (\<exists>vis. visibleComments (exProps APPROVER) (exRoom pointer PENDING) = Inr vis \<and> exC2 \<notin> set vis)
   \<and> (\<exists>vis. visibleComments (exProps CREATOR) (exRoom pointer PENDING) = Inr vis \<and> exC2 \<in> set vis)"
proof -
  have av: "activeVersion (exRoom pointer PENDING) = Some exV2" by (rule ex_active)
  have m: "exC2 \<in> set (v_comments exV2)" by (simp add: exV2_def)
  have i: "c_isInternal exC2 = Some True" by (simp add: exC2_def)
  have ra: "userRole (exProps APPROVER) = APPROVER" and rc: "userRole (exProps CREATOR) \<noteq> APPROVER"
    by (simp_all add: exProps_def)
  from visibleComments_top_level [OF av, where props = "exProps APPROVER"] m i ra
  have a: "\<exists>vis. visibleComments (exProps APPROVER) (exRoom pointer PENDING) = Inr vis \<and> exC2 \<notin> set vis"
    by blast
  from visibleComments_top_level [OF av, where props = "exProps CREATOR"] m i rc
  have c: "\<exists>vis. visibleComments (exProps CREATOR) (exRoom pointer PENDING) = Inr vis \<and> exC2 \<in> set vis"
    by blast
  from av m i a c show ?thesis by blast
qed

text \<open>An upload on the example asset in status Approved: the new version has number 3.\<close>

theorem upload_new_version_witness:
  "versions (exRoom pointer APPROVED) = exV2 # [exV1]
   \<and> v_versionNumber exV2 = 2 \<and> v_versionNumber exV1 = 1
   \<and> (\<exists>st' nv. handleUploadNewVersion (exProps CREATOR) 3000 3001 3002 (exRoom pointer APPROVED) = Inr st'
         \<and> currentAssetStatus st' = PENDING
         \<and> versions st' = nv # versions (exRoom pointer APPROVED)
         \<and> v_versionNumber nv = 3
         \<and> v_comments nv = [])"
proof -
  have h1: "versions (exRoom pointer APPROVED) = exV2 # [exV1]" by (simp add: exRoom_def)
  have h2: "\<forall>v \<in> set (versions (exRoom pointer APPROVED)). v_versionNumber v \<le> v_versionNumber exV2"
    by (simp add: exRoom_def exV2_def exV1_def)
  from upload_new_version [OF h1 h2, of "exProps CREATOR" 3000 3001 3002]
  obtain st' nv where r: "handleUploadNewVersion (exProps CREATOR) 3000 3001 3002 (exRoom pointer APPROVED) = Inr st'"
    "currentAssetStatus st' = PENDING" "versions st' = nv # versions (exRoom pointer APPROVED)"
    "v_comments nv = []"
    by blast
  from r(1,3) have "v_versionNumber nv = 3"
    by (auto simp: handleUploadNewVersion_def Let_def exRoom_def exV2_def)
  moreover have "v_versionNumber exV2 = 2" and "v_versionNumber exV1 = 1"
    by (simp_all add: exV2_def exV1_def)
  ultimately show ?thesis using h1 r by blast
qed

lemma idle_not_dragged: "\<not> truthy (draggedCommentId idleLayer)"
  by (simp add: truthy_def idleLayer_def)

lemma ex_getPoint:
  "getPoint (handleMouseDown P idleLayer (mouseAt ax ay)) (mouseAt cx cy) = \<lparr>p_x = cx, p_y = cy\<rparr>"
  by (simp add: getPoint_def handleMouseDown_def idleLayer_def mouseAt_def exBounds_def
      normalized_def Let_def truthy_def)

text \<open>
  Dragging from (60, 60) back to (20, 20), and from (20, 20) forward to (60, 60), both give the
  rectangle at (20, 20) with extent 40 by 40.
\<close>

theorem box_normalization_witness:
  "lp_drawingTool (layerProps (exRoom box PENDING)) = box
   \<and> \<not> lp_isCompareMode (layerProps (exRoom box PENDING))
   \<and> \<not> truthy (draggedCommentId idleLayer)
   \<and> currentRect (mouseMoves (layerProps (exRoom box PENDING))
         (handleMouseDown (layerProps (exRoom box PENDING)) idleLayer (mouseAt 60 60)) ([] @ [mouseAt 20 20]))
       = Some \<lparr>r_x = 20, r_y = 20, r_w = 40, r_h = 40\<rparr>
   \<and> currentRect (mouseMoves (layerProps (exRoom box PENDING))
         (handleMouseDown (layerProps (exRoom box PENDING)) idleLayer (mouseAt 20 20)) ([mouseAt 35 70] @ [mouseAt 60 60]))
       = Some \<lparr>r_x = 20, r_y = 20, r_w = 40, r_h = 40\<rparr>"
proof -
  have h1: "lp_drawingTool (layerProps (exRoom box PENDING)) = box"
    and h2: "\<not> lp_isCompareMode (layerProps (exRoom box PENDING))"
    by (simp_all add: layerProps_def exRoom_def)
  note h3 = idle_not_dragged
  from box_normalization [OF h1 h2 h3, of "mouseAt 60 60" "mouseAt 20 20" "[]"]
  have a: "currentRect (mouseMoves (layerProps (exRoom box PENDING))
         (handleMouseDown (layerProps (exRoom box PENDING)) idleLayer (mouseAt 60 60)) ([] @ [mouseAt 20 20]))
       = Some \<lparr>r_x = 20, r_y = 20, r_w = 40, r_h = 40\<rparr>"
    unfolding Let_def ex_getPoint by simp
  from box_normalization [OF h1 h2 h3, of "mouseAt 20 20" "mouseAt 60 60" "[mouseAt 35 70]"]
  have b: "currentRect (mouseMoves (layerProps (exRoom box PENDING))
         (handleMouseDown (layerProps (exRoom box PENDING)) idleLayer (mouseAt 20 20)) ([mouseAt 35 70] @ [mouseAt 60 60]))
       = Some \<lparr>r_x = 20, r_y = 20, r_w = 40, r_h = 40\<rparr>"
    unfolding Let_def ex_getPoint by simp
  from h1 h2 h3 a b show ?thesis by (intro conjI)
qed

lemma ex_box_rect:
  "currentRect (mouseMoves (layerProps (exRoom box status))
      (handleMouseDown (layerProps (exRoom box status)) idleLayer (mouseAt ax ay)) [mouseAt cx cy])
     = Some \<lparr>r_x = min ax cx, r_y = min ay cy, r_w = \<bar>cx - ax\<bar>, r_h = \<bar>cy - ay\<bar>\<rparr>"
proof -
  have h1: "lp_drawingTool (layerProps (exRoom box status)) = box"
    and h2: "\<not> lp_isCompareMode (layerProps (exRoom box status))"
    by (simp_all add: layerProps_def exRoom_def)
  show ?thesis
    using gesture_box(1) [OF h1 h2 idle_not_dragged, of "mouseAt ax ay" "[mouseAt cx cy]"]
    by (simp add: ex_getPoint minCornerRect_def)
qed

lemma ex_pen_path:
  "currentPath (mouseMoves (layerProps (exRoom pen status))
      (handleMouseDown (layerProps (exRoom pen status)) idleLayer (mouseAt ax ay)) [mouseAt cx cy])
     = [\<lparr>p_x = ax, p_y = ay\<rparr>, \<lparr>p_x = cx, p_y = cy\<rparr>]"
proof -
  have h1: "lp_drawingTool (layerProps (exRoom pen status)) = pen"
    and h2: "\<not> lp_isCompareMode (layerProps (exRoom pen status))"
    by (simp_all add: layerProps_def exRoom_def)
  show ?thesis
    using gesture_pen(1) [OF h1 h2 idle_not_dragged, of "mouseAt ax ay" "[mouseAt cx cy]"]
    by (simp add: ex_getPoint)
qed

text \<open>
  Claim C3 as first stated fails. A Creator's box gesture from (10, 10) to (11, 10.5) ends with
  a rectangle of width exactly 1, and commits nothing: the test of \<open>handleMouseUp\<close> is
  \<open>w > 1 || h > 1\<close>. An Observer's pen gesture with two points commits nothing either.
\<close>

theorem discard_thresholds_counterexample:
  "currentRect (mouseMoves (layerProps (exRoom box PENDING))
      (handleMouseDown (layerProps (exRoom box PENDING)) idleLayer (mouseAt 10 10)) [mouseAt 11 10.5])
     = Some \<lparr>r_x = 10, r_y = 10, r_w = 1, r_h = 0.5\<rparr>
   \<and> roomGesture (exProps CREATOR) 5000 5001 (exRoom box PENDING) idleLayer
        (mouseAt 10 10) [mouseAt 11 10.5] (mouseAt 11 10.5) = Inr (exRoom box PENDING)
   \<and> length (currentPath (mouseMoves (layerProps (exRoom pen PENDING))
        (handleMouseDown (layerProps (exRoom pen PENDING)) idleLayer (mouseAt 10 10)) [mouseAt 30 40])) = 2
   \<and> roomGesture (exProps OBSERVER) 5000 5001 (exRoom pen PENDING) idleLayer
        (mouseAt 10 10) [mouseAt 30 40] (mouseAt 30 40) = Inr (exRoom pen PENDING)"
proof (intro conjI)
  show "currentRect (mouseMoves (layerProps (exRoom box PENDING))
      (handleMouseDown (layerProps (exRoom box PENDING)) idleLayer (mouseAt 10 10)) [mouseAt 11 10.5])
     = Some \<lparr>r_x = 10, r_y = 10, r_w = 1, r_h = 0.5\<rparr>"
    by (subst ex_box_rect) simp
  have h1: "lp_drawingTool (layerProps (exRoom box PENDING)) = box"
    and h2: "\<not> lp_isCompareMode (layerProps (exRoom box PENDING))"
    by (simp_all add: layerProps_def exRoom_def)
  have "snd (gesture (layerProps (exRoom box PENDING)) idleLayer (mouseAt 10 10) [mouseAt 11 10.5] (mouseAt 11 10.5)) = None"
    using gesture_box(2) [OF h1 h2 idle_not_dragged, of "mouseAt 10 10" "[mouseAt 11 10.5]" "mouseAt 11 10.5"]
    by (simp add: ex_getPoint minCornerRect_def)
  then show "roomGesture (exProps CREATOR) 5000 5001 (exRoom box PENDING) idleLayer
        (mouseAt 10 10) [mouseAt 11 10.5] (mouseAt 11 10.5) = Inr (exRoom box PENDING)"
    by (rule roomGesture_discard)
  show "length (currentPath (mouseMoves (layerProps (exRoom pen PENDING))
        (handleMouseDown (layerProps (exRoom pen PENDING)) idleLayer (mouseAt 10 10)) [mouseAt 30 40])) = 2"
    by (subst ex_pen_path) simp
  have g1: "lp_drawingTool (layerProps (exRoom pen PENDING)) = pen"
    and g2: "\<not> lp_isCompareMode (layerProps (exRoom pen PENDING))"
    by (simp_all add: layerProps_def exRoom_def)
  have "\<exists>x y d. snd (gesture (layerProps (exRoom pen PENDING)) idleLayer (mouseAt 10 10) [mouseAt 30 40] (mouseAt 30 40))
       = Some (AddComment x y d)"
    using gesture_pen(2) [OF g1 g2 idle_not_dragged, of "mouseAt 10 10" "[mouseAt 30 40]" "mouseAt 30 40"]
    by simp
  then show "roomGesture (exProps OBSERVER) 5000 5001 (exRoom pen PENDING) idleLayer
        (mouseAt 10 10) [mouseAt 30 40] (mouseAt 30 40) = Inr (exRoom pen PENDING)"
    by (auto simp: roomGesture_def layerCall_def handleAddComment_def exProps_def exRoom_def)
qed

text \<open>
  The amended thresholds on the example, for a Creator: a box of 40 by 40 is committed, a box
  of 0.5 by 1 is discarded, a pen gesture without a move is discarded, a pen gesture with one
  move is committed.
\<close>

theorem discard_thresholds_witness:
  "\<not> truthy (draggedCommentId idleLayer)
   \<and> userRole (exProps CREATOR) = CREATOR
   \<and> isCompareMode (exRoom box PENDING) = False \<and> isCompareMode (exRoom pen PENDING) = False
   \<and> activeVersion (exRoom box PENDING) = Some exV2 \<and> activeVersion (exRoom pen PENDING) = Some exV2
   \<and> drawingTool (exRoom box PENDING) = box \<and> drawingTool (exRoom pen PENDING) = pen
   \<and> currentRect (mouseMoves (layerProps (exRoom box PENDING))
        (handleMouseDown (layerProps (exRoom box PENDING)) idleLayer (mouseAt 60 60)) [mouseAt 20 20])
       = Some \<lparr>r_x = 20, r_y = 20, r_w = 40, r_h = 40\<rparr>
   \<and> (\<exists>st' c. roomGesture (exProps CREATOR) 5000 5001 (exRoom box PENDING) idleLayer
                  (mouseAt 60 60) [mouseAt 20 20] (mouseAt 20 20) = Inr st'
          \<and> activeVersion st' = Some (exV2\<lparr>v_comments := c # v_comments exV2\<rparr>))
   \<and> currentRect (mouseMoves (layerProps (exRoom box PENDING))
        (handleMouseDown (layerProps (exRoom box PENDING)) idleLayer (mouseAt 10 10)) [mouseAt 10.5 11])
       = Some \<lparr>r_x = 10, r_y = 10, r_w = 0.5, r_h = 1\<rparr>
   \<and> roomGesture (exProps CREATOR) 5000 5001 (exRoom box PENDING) idleLayer
        (mouseAt 10 10) [mouseAt 10.5 11] (mouseAt 10.5 11) = Inr (exRoom box PENDING)
   \<and> length (currentPath (mouseMoves (layerProps (exRoom pen PENDING))
        (handleMouseDown (layerProps (exRoom pen PENDING)) idleLayer (mouseAt 10 10)) [])) = 1
   \<and> roomGesture (exProps CREATOR) 5000 5001 (exRoom pen PENDING) idleLayer
        (mouseAt 10 10) [] (mouseAt 10 10) = Inr (exRoom pen PENDING)
   \<and> length (currentPath (mouseMoves (layerProps (exRoom pen PENDING))
        (handleMouseDown (layerProps (exRoom pen PENDING)) idleLayer (mouseAt 10 10)) [mouseAt 30 40])) = 2
   \<and> (\<exists>st' c. roomGesture (exProps CREATOR) 5000 5001 (exRoom pen PENDING) idleLayer
                  (mouseAt 10 10) [mouseAt 30 40] (mouseAt 30 40) = Inr st'
          \<and> activeVersion st' = Some (exV2\<lparr>v_comments := c # v_comments exV2\<rparr>))"
proof -
  have t: "drawingTool (exRoom box PENDING) = box" and tp: "drawingTool (exRoom pen PENDING) = pen"
    and role: "userRole (exProps CREATOR) = CREATOR"
    and cm: "isCompareMode (exRoom box PENDING) = False"
    and cmp: "isCompareMode (exRoom pen PENDING) = False"
    by (simp_all add: exRoom_def exProps_def)
  have av: "activeVersion (exRoom box PENDING) = Some exV2"
    and avp: "activeVersion (exRoom pen PENDING) = Some exV2"
    by (rule ex_active)+
  have cr: "currentRect (mouseMoves (layerProps (exRoom box PENDING))
        (handleMouseDown (layerProps (exRoom box PENDING)) idleLayer (mouseAt 60 60)) [mouseAt 20 20])
       = Some \<lparr>r_x = 20, r_y = 20, r_w = 40, r_h = 40\<rparr>"
    by (subst ex_box_rect) simp
  have cs: "currentRect (mouseMoves (layerProps (exRoom box PENDING))
        (handleMouseDown (layerProps (exRoom box PENDING)) idleLayer (mouseAt 10 10)) [mouseAt 10.5 11])
       = Some \<lparr>r_x = 10, r_y = 10, r_w = 0.5, r_h = 1\<rparr>"
    by (subst ex_box_rect) simp
  have g1: "lp_drawingTool (layerProps (exRoom pen PENDING)) = pen"
    and g2: "\<not> lp_isCompareMode (layerProps (exRoom pen PENDING))"
    by (simp_all add: layerProps_def exRoom_def)
  have len1: "length (currentPath (mouseMoves (layerProps (exRoom pen PENDING))
        (handleMouseDown (layerProps (exRoom pen PENDING)) idleLayer (mouseAt 10 10)) [])) = 1"
    using gesture_pen(1) [OF g1 g2 idle_not_dragged, of "mouseAt 10 10" "[]"] by simp
  have len2: "length (currentPath (mouseMoves (layerProps (exRoom pen PENDING))
        (handleMouseDown (layerProps (exRoom pen PENDING)) idleLayer (mouseAt 10 10)) [mouseAt 30 40])) = 2"
    by (subst ex_pen_path) simp
  note T = discard_thresholds [OF idle_not_dragged]
  from T [of "exRoom box PENDING" "mouseAt 60 60" "[mouseAt 20 20]" "exProps CREATOR" 5000 5001 "mouseAt 20 20" exV2]
    t cr role cm av
  have box1: "\<exists>st' c. roomGesture (exProps CREATOR) 5000 5001 (exRoom box PENDING) idleLayer
                  (mouseAt 60 60) [mouseAt 20 20] (mouseAt 20 20) = Inr st'
          \<and> activeVersion st' = Some (exV2\<lparr>v_comments := c # v_comments exV2\<rparr>)"
    by simp
  from T [of "exRoom box PENDING" "mouseAt 10 10" "[mouseAt 10.5 11]" "exProps CREATOR" 5000 5001 "mouseAt 10.5 11" exV2]
    t cs
  have box0: "roomGesture (exProps CREATOR) 5000 5001 (exRoom box PENDING) idleLayer
        (mouseAt 10 10) [mouseAt 10.5 11] (mouseAt 10.5 11) = Inr (exRoom box PENDING)"
    by simp
  from T [of "exRoom pen PENDING" "mouseAt 10 10" "[]" "exProps CREATOR" 5000 5001 "mouseAt 10 10" exV2]
    tp len1
  have pen1: "roomGesture (exProps CREATOR) 5000 5001 (exRoom pen PENDING) idleLayer
        (mouseAt 10 10) [] (mouseAt 10 10) = Inr (exRoom pen PENDING)"
    by simp
  from T [of "exRoom pen PENDING" "mouseAt 10 10" "[mouseAt 30 40]" "exProps CREATOR" 5000 5001 "mouseAt 30 40" exV2]
    tp len2 role cmp avp
  have pen2: "\<exists>st' c. roomGesture (exProps CREATOR) 5000 5001 (exRoom pen PENDING) idleLayer
                  (mouseAt 10 10) [mouseAt 30 40] (mouseAt 30 40) = Inr st'
          \<and> activeVersion st' = Some (exV2\<lparr>v_comments := c # v_comments exV2\<rparr>)"
    by simp
  from idle_not_dragged role cm cmp av avp t tp cr box1 cs box0 len1 pen1 len2 pen2
  show ?thesis by (intro conjI)
qed

text \<open>
  The translations on the example: the pen drawing and the box drawing moved by (5, 10), the
  first comment moved by (5, 10) and back, the second comment dragged to (15, 20).
\<close>

theorem round_trip_translate_witness:
  "translateDrawing 5 10
      \<lparr>d_type = Pen, d_points = Some [\<lparr>p_x = 10, p_y = 10\<rparr>, \<lparr>p_x = 12, p_y = 15\<rparr>],
       d_rect = None, d_color = ''#3b82f6''\<rparr>
     = \<lparr>d_type = Pen, d_points = Some [\<lparr>p_x = 15, p_y = 20\<rparr>, \<lparr>p_x = 17, p_y = 25\<rparr>],
        d_rect = None, d_color = ''#3b82f6''\<rparr>
   \<and> translateDrawing (- 5) (- 10)
       \<lparr>d_type = Pen, d_points = Some [\<lparr>p_x = 15, p_y = 20\<rparr>, \<lparr>p_x = 17, p_y = 25\<rparr>],
        d_rect = None, d_color = ''#3b82f6''\<rparr>
     = \<lparr>d_type = Pen, d_points = Some [\<lparr>p_x = 10, p_y = 10\<rparr>, \<lparr>p_x = 12, p_y = 15\<rparr>],
        d_rect = None, d_color = ''#3b82f6''\<rparr>
   \<and> translateDrawing 5 10
      \<lparr>d_type = Box, d_points = None,
       d_rect = Some \<lparr>r_x = 40, r_y = 25, r_w = 10, r_h = 10\<rparr>, d_color = ''#ef4444''\<rparr>
     = \<lparr>d_type = Box, d_points = None,
        d_rect = Some \<lparr>r_x = 45, r_y = 35, r_w = 10, r_h = 10\<rparr>, d_color = ''#ef4444''\<rparr>
   \<and> c_x exC1 = Some 45 \<and> c_y exC1 = Some 30
   \<and> moveComment (45 + 5) (30 + 10) exC1
     = Comment ''c1'' ''u2'' ''Low contrast'' 100 False (Some 50) (Some 40) None
         (Some \<lparr>d_type = Box, d_points = None,
                d_rect = Some \<lparr>r_x = 45, r_y = 35, r_w = 10, r_h = 10\<rparr>, d_color = ''#ef4444''\<rparr>)
         (Some []) None
   \<and> moveComment 45 30 (moveComment (45 + 5) (30 + 10) exC1) = exC1
   \<and> versions (handleUpdateCommentPosition (exRoom pointer PENDING) ''c2'' 15 20)
     = [exV2\<lparr>v_comments :=
               [exC1,
                Comment ''c2'' ''u1'' ''Team only'' 200 False (Some 15) (Some 20) None
                  (Some \<lparr>d_type = Pen,
                         d_points = Some [\<lparr>p_x = 15, p_y = 20\<rparr>, \<lparr>p_x = 17, p_y = 25\<rparr>],
                         d_rect = None, d_color = ''#3b82f6''\<rparr>)
                  None (Some True),
                exC3]\<rparr>,
        exV1]
   \<and> handleUpdateCommentPosition
        (handleUpdateCommentPosition (exRoom pointer PENDING) ''c1'' (45 + 5) (30 + 10)) ''c1'' 45 30
       = exRoom pointer PENDING"
proof -
  let ?pen = "\<lparr>d_type = Pen, d_points = Some [\<lparr>p_x = 10, p_y = 10\<rparr>, \<lparr>p_x = 12, p_y = 15\<rparr>],
       d_rect = None, d_color = ''#3b82f6''\<rparr>"
  let ?box = "\<lparr>d_type = Box, d_points = None,
       d_rect = Some \<lparr>r_x = 40, r_y = 25, r_w = 10, r_h = 10\<rparr>, d_color = ''#ef4444''\<rparr>"
  have c: "c_x exC1 = Some 45 \<and> c_y exC1 = Some 30" by (simp add: exC1_def)
  have all: "\<forall>v \<in> set (versions (exRoom pointer PENDING)). \<forall>k \<in> set (v_comments v).
         c_id k = ''c1'' \<longrightarrow> c_x k = Some 45 \<and> c_y k = Some 30"
    by (simp add: exRoom_def exV2_def exV1_def exC1_def exC2_def exC3_def)
  note P = round_trip_translate [of ?pen "[\<lparr>p_x = 10, p_y = 10\<rparr>, \<lparr>p_x = 12, p_y = 15\<rparr>]" 5 10
      "\<lparr>r_x = 0, r_y = 0, r_w = 0, r_h = 0\<rparr>" 15 20 exC2 10 10 "exRoom pointer PENDING" "''c2''"]
  note B = round_trip_translate [of ?box "[]" 5 10 "\<lparr>r_x = 40, r_y = 25, r_w = 10, r_h = 10\<rparr>"
      50 40 exC1 45 30 "exRoom pointer PENDING" "''c1''"]
  from P have p1: "translateDrawing 5 10 ?pen
     = \<lparr>d_type = Pen, d_points = Some [\<lparr>p_x = 15, p_y = 20\<rparr>, \<lparr>p_x = 17, p_y = 25\<rparr>],
        d_rect = None, d_color = ''#3b82f6''\<rparr>"
    by simp
  from P have "translateDrawing (- 5) (- 10) (translateDrawing 5 10 ?pen) = ?pen" by blast
  then have p2: "translateDrawing (- 5) (- 10)
       \<lparr>d_type = Pen, d_points = Some [\<lparr>p_x = 15, p_y = 20\<rparr>, \<lparr>p_x = 17, p_y = 25\<rparr>],
        d_rect = None, d_color = ''#3b82f6''\<rparr> = ?pen"
    unfolding p1 .
  from B have b1: "translateDrawing 5 10 ?box
     = \<lparr>d_type = Box, d_points = None,
        d_rect = Some \<lparr>r_x = 45, r_y = 35, r_w = 10, r_h = 10\<rparr>, d_color = ''#ef4444''\<rparr>"
    by simp
  from B have "moveComment 50 40 exC1 =
        Comment (c_id exC1) (c_userId exC1) (c_text exC1) (c_timestamp exC1) (c_resolved exC1)
          (Some 50) (Some 40) (c_videoTimestamp exC1)
          (map_option (translateDrawing (50 - orZero (c_x exC1)) (40 - orZero (c_y exC1))) (c_drawing exC1))
          (c_replies exC1) (c_isInternal exC1)"
    by blast
  then have m1: "moveComment (45 + 5) (30 + 10) exC1
     = Comment ''c1'' ''u2'' ''Low contrast'' 100 False (Some 50) (Some 40) None
         (Some \<lparr>d_type = Box, d_points = None,
                d_rect = Some \<lparr>r_x = 45, r_y = 35, r_w = 10, r_h = 10\<rparr>, d_color = ''#ef4444''\<rparr>)
         (Some []) None"
    using b1 by (simp add: exC1_def orZero_def)
  from B c have m2: "moveComment 45 30 (moveComment (45 + 5) (30 + 10) exC1) = exC1" by blast
  from B all have r: "handleUpdateCommentPosition
        (handleUpdateCommentPosition (exRoom pointer PENDING) ''c1'' (45 + 5) (30 + 10)) ''c1'' 45 30
       = exRoom pointer PENDING"
    by blast
  from P have "handleUpdateCommentPosition (exRoom pointer PENDING) ''c2'' 15 20 =
        (exRoom pointer PENDING)\<lparr>versions :=
             map (\<lambda>v. if v_id v = activeVersionId (exRoom pointer PENDING)
                       then v\<lparr>v_comments := map (\<lambda>k. if c_id k = ''c2'' then moveComment 15 20 k else k)
                                                 (v_comments v)\<rparr>
                       else v)
               (versions (exRoom pointer PENDING))\<rparr>"
    by blast
  moreover from P have "moveComment 15 20 exC2 =
        Comment (c_id exC2) (c_userId exC2) (c_text exC2) (c_timestamp exC2) (c_resolved exC2)
          (Some 15) (Some 20) (c_videoTimestamp exC2)
          (map_option (translateDrawing (15 - orZero (c_x exC2)) (20 - orZero (c_y exC2))) (c_drawing exC2))
          (c_replies exC2) (c_isInternal exC2)"
    by blast
  ultimately have h: "versions (handleUpdateCommentPosition (exRoom pointer PENDING) ''c2'' 15 20)
     = [exV2\<lparr>v_comments :=
               [exC1,
                Comment ''c2'' ''u1'' ''Team only'' 200 False (Some 15) (Some 20) None
                  (Some \<lparr>d_type = Pen,
                         d_points = Some [\<lparr>p_x = 15, p_y = 20\<rparr>, \<lparr>p_x = 17, p_y = 25\<rparr>],
                         d_rect = None, d_color = ''#3b82f6''\<rparr>)
                  None (Some True),
                exC3]\<rparr>,
        exV1]"
    using p1 by (simp add: exRoom_def exV2_def exV1_def exC1_def exC2_def exC3_def orZero_def)
  from p1 p2 b1 c m1 m2 h r show ?thesis by (intro conjI) blast+
qed

text \<open>An Observer's pen gesture with two points leaves the room as it was.\<close>

theorem permission_denial_atomicity_witness:
  "(userRole (exProps OBSERVER) = OBSERVER \<or> isCompareMode (exRoom pen PENDING))
   \<and> \<not> truthy (draggedCommentId idleLayer)
   \<and> handleAddComment (exProps OBSERVER) 5000 5001 (exRoom pen PENDING) 10 20 None = Inr (exRoom pen PENDING)
   \<and> roomGesture (exProps OBSERVER) 5000 5001 (exRoom pen PENDING) idleLayer
        (mouseAt 10 10) [mouseAt 30 40] (mouseAt 30 40) = Inr (exRoom pen PENDING)"
proof -
  have h: "userRole (exProps OBSERVER) = OBSERVER \<or> isCompareMode (exRoom pen PENDING)"
    by (simp add: exProps_def)
  from permission_denial_atomicity [OF h, of 5000 5001 10 20 None idleLayer "mouseAt 10 10" "[mouseAt 30 40]" "mouseAt 30 40"]
    h idle_not_dragged
  show ?thesis by simp
qed

text \<open>
  The anchors on the example: the box from (60, 60) to (20, 20) is anchored at (60, 20); a pen
  stroke that starts at (150, -20), outside the content box, is anchored there.
\<close>

theorem commit_pin_anchor_witness:
  "\<not> truthy (draggedCommentId idleLayer) \<and> userRole (exProps CREATOR) \<noteq> OBSERVER
   \<and> \<not> isCompareMode (exRoom box PENDING) \<and> activeVersion (exRoom box PENDING) = Some exV2
   \<and> drawingTool (exRoom box PENDING) = box
   \<and> currentRect (mouseMoves (layerProps (exRoom box PENDING))
        (handleMouseDown (layerProps (exRoom box PENDING)) idleLayer (mouseAt 60 60)) [mouseAt 20 20])
       = Some \<lparr>r_x = 20, r_y = 20, r_w = 40, r_h = 40\<rparr>
   \<and> (\<exists>st' c. roomGesture (exProps CREATOR) 5000 5001 (exRoom box PENDING) idleLayer
                  (mouseAt 60 60) [mouseAt 20 20] (mouseAt 20 20) = Inr st'
          \<and> activeVersion st' = Some (exV2\<lparr>v_comments := c # v_comments exV2\<rparr>)
          \<and> c_x c = Some 60 \<and> c_y c = Some 20)
   \<and> \<not> isCompareMode (exRoom pen PENDING) \<and> activeVersion (exRoom pen PENDING) = Some exV2
   \<and> drawingTool (exRoom pen PENDING) = pen
   \<and> currentPath (mouseMoves (layerProps (exRoom pen PENDING))
        (handleMouseDown (layerProps (exRoom pen PENDING)) idleLayer (mouseAt 150 (- 20))) [mouseAt 90 10])
       = [\<lparr>p_x = 150, p_y = - 20\<rparr>, \<lparr>p_x = 90, p_y = 10\<rparr>]
   \<and> (\<exists>st' c. roomGesture (exProps CREATOR) 5000 5001 (exRoom pen PENDING) idleLayer
                  (mouseAt 150 (- 20)) [mouseAt 90 10] (mouseAt 90 10) = Inr st'
          \<and> activeVersion st' = Some (exV2\<lparr>v_comments := c # v_comments exV2\<rparr>)
          \<and> c_x c = Some 150 \<and> c_y c = Some (- 20))"
proof -
  have role: "userRole (exProps CREATOR) \<noteq> OBSERVER"
    and cb: "\<not> isCompareMode (exRoom box PENDING)" and cp: "\<not> isCompareMode (exRoom pen PENDING)"
    and tb: "drawingTool (exRoom box PENDING) = box" and tp: "drawingTool (exRoom pen PENDING) = pen"
    by (simp_all add: exRoom_def exProps_def)
  have ab: "activeVersion (exRoom box PENDING) = Some exV2"
    and ap: "activeVersion (exRoom pen PENDING) = Some exV2"
    by (rule ex_active)+
  have cr: "currentRect (mouseMoves (layerProps (exRoom box PENDING))
        (handleMouseDown (layerProps (exRoom box PENDING)) idleLayer (mouseAt 60 60)) [mouseAt 20 20])
       = Some \<lparr>r_x = 20, r_y = 20, r_w = 40, r_h = 40\<rparr>"
    by (subst ex_box_rect) simp
  have pa: "currentPath (mouseMoves (layerProps (exRoom pen PENDING))
        (handleMouseDown (layerProps (exRoom pen PENDING)) idleLayer (mouseAt 150 (- 20))) [mouseAt 90 10])
       = [\<lparr>p_x = 150, p_y = - 20\<rparr>, \<lparr>p_x = 90, p_y = 10\<rparr>]"
    by (subst ex_pen_path) simp
  from commit_pin_anchor [OF idle_not_dragged role cb ab,
      of "mouseAt 60 60" "[mouseAt 20 20]" 5000 5001 "mouseAt 20 20"] tb cr
  have b: "\<exists>st' c. roomGesture (exProps CREATOR) 5000 5001 (exRoom box PENDING) idleLayer
                  (mouseAt 60 60) [mouseAt 20 20] (mouseAt 20 20) = Inr st'
          \<and> activeVersion st' = Some (exV2\<lparr>v_comments := c # v_comments exV2\<rparr>)
          \<and> c_x c = Some 60 \<and> c_y c = Some 20"
    by fastforce
  from commit_pin_anchor [OF idle_not_dragged role cp ap,
      of "mouseAt 150 (- 20)" "[mouseAt 90 10]" 5000 5001 "mouseAt 90 10"] tp pa
  have p: "\<exists>st' c. roomGesture (exProps CREATOR) 5000 5001 (exRoom pen PENDING) idleLayer
                  (mouseAt 150 (- 20)) [mouseAt 90 10] (mouseAt 90 10) = Inr st'
          \<and> activeVersion st' = Some (exV2\<lparr>v_comments := c # v_comments exV2\<rparr>)
          \<and> c_x c = Some 150 \<and> c_y c = Some (- 20)"
    by fastforce
  from idle_not_dragged role cb ab tb cr b cp ap tp pa p show ?thesis by (intro conjI)
qed

text \<open>
  Claim C6 as first stated fails in its last part. In the example room (zoom 1, pan (0, 0)) a
  wheel event with delta -1000000 at the pointer position \<open>2 ^ 1023\<close>, all of them finite
  doubles, clamps the zoom to 5 and moves the pan to \<open>-4 * (2 ^ 1023 - 100)\<close>, beyond every
  finite double: nothing clamps the pan.
\<close>

theorem zoom_clamp_invariant_counterexample:
  "0.1 \<le> zoom (exRoom pointer PENDING) \<and> zoom (exRoom pointer PENDING) \<le> 5
   \<and> \<not> overflows (deltaY exWheelFar) \<and> \<not> overflows (w_clientX exWheelFar)
   \<and> \<not> overflows (w_clientY exWheelFar)
   \<and> \<not> overflows (p_x (pan (exRoom pointer PENDING))) \<and> \<not> overflows (p_y (pan (exRoom pointer PENDING)))
   \<and> zoom (handleWheel (exRoom pointer PENDING) exWheelFar) = 5
   \<and> p_x (pan (handleWheel (exRoom pointer PENDING) exWheelFar)) = - 4 * (2 ^ 1023 - 100)
   \<and> overflows (p_x (pan (handleWheel (exRoom pointer PENDING) exWheelFar)))"
proof -
  have big: "(400::real) \<le> 2 ^ 1023"
  proof -
    have "(2::real) ^ 9 \<le> 2 ^ 1023" by (rule power_increasing) simp_all
    then show ?thesis by simp
  qed
  have p: "(2::real) ^ 1024 = 2 * 2 ^ 1023" by simp
  have x: "p_x (pan (handleWheel (exRoom pointer PENDING) exWheelFar)) = - 4 * (2 ^ 1023 - 100)"
    by (simp add: handleWheel_def exRoom_def exWheelFar_def exViewport_def Let_def)
  have z: "zoom (handleWheel (exRoom pointer PENDING) exWheelFar) = 5"
    by (simp add: handleWheel_def exRoom_def exWheelFar_def exViewport_def Let_def)
  have o: "overflows (p_x (pan (handleWheel (exRoom pointer PENDING) exWheelFar)))"
    unfolding x overflows_def p using big by simp
  have i: "\<not> overflows (deltaY exWheelFar)" "\<not> overflows (w_clientX exWheelFar)"
    "\<not> overflows (w_clientY exWheelFar)"
    "\<not> overflows (p_x (pan (exRoom pointer PENDING)))" "\<not> overflows (p_y (pan (exRoom pointer PENDING)))"
    unfolding overflows_def p using big
    by (simp_all add: exWheelFar_def exRoom_def)
  have r: "0.1 \<le> zoom (exRoom pointer PENDING)" "zoom (exRoom pointer PENDING) \<le> 5"
    by (simp_all add: exRoom_def)
  from r i z x o show ?thesis by (intro conjI)
qed

text \<open>
  Claim C7 (visibility filter) asks that a comment flagged \<open>isInternal\<close> be out of the
  rendered set exactly when the viewer is an Approver. The code does not meet it for replies.
  A Creator's reply to the first comment of the example, flagged internal
  (\<open>handleReplyToComment\<close>), is stored inside that comment; \<open>visibleComments\<close> tests the flag
  of the top-level comments only, and the sidebar prints every reply of a listed comment. The
  internal reply is therefore in the Approver's sidebar, under the Open tab and under the All
  tab.
\<close>

theorem visibility_filter_reply_leak:
  "handleReplyToComment (exProps CREATOR) 7000 7001 (exRoom pointer PENDING)
      ''c1'' ''Keep this from the client'' True = Inr exRepliedRoom
   \<and> c_isInternal exReply = Some True
   \<and> userRole (exProps APPROVER) = APPROVER
   \<and> visibleComments (exProps APPROVER) exRepliedRoom = Inr [exC1Replied, exC3]
   \<and> sidebar (exProps APPROVER) OPEN_filter exRepliedRoom = Inr [exC1Replied, exReply]
   \<and> sidebar (exProps APPROVER) ALL_filter exRepliedRoom = Inr [exC3, exC1Replied, exReply]"
proof -
  have av: "activeVersion (exRoom pointer PENDING) = Some exV2" by (rule ex_active)
  have r: "handleReplyToComment (exProps CREATOR) 7000 7001 (exRoom pointer PENDING)
      ''c1'' ''Keep this from the client'' True = Inr exRepliedRoom"
    unfolding handleReplyToComment_def Let_def av
    by (simp add: exRepliedRoom_def exRoom_def exV2_def exV1_def exC1_def exC2_def exC3_def
        exC1Replied_def exReply_def exProps_def)
  have av2: "activeVersion exRepliedRoom = Some (exV2\<lparr>v_comments := [exC1Replied, exC2, exC3]\<rparr>)"
    by (simp add: activeVersion_def exRepliedRoom_def exRoom_def exV2_def)
  have vis: "visibleComments (exProps APPROVER) exRepliedRoom = Inr [exC1Replied, exC3]"
    unfolding visibleComments_def av2
    by (simp add: exProps_def exC1Replied_def exC2_def exC3_def)
  have s1: "sidebar (exProps APPROVER) OPEN_filter exRepliedRoom = Inr [exC1Replied, exReply]"
    unfolding sidebar_def vis
    by (simp add: threadEntries_def sortedComments_def exC1Replied_def exC3_def)
  have s2: "sidebar (exProps APPROVER) ALL_filter exRepliedRoom = Inr [exC3, exC1Replied, exReply]"
    unfolding sidebar_def vis
    by (simp add: threadEntries_def sortedComments_def exC1Replied_def exC3_def)
  have i: "c_isInternal exReply = Some True" by (simp add: exReply_def)
  have a: "userRole (exProps APPROVER) = APPROVER" by (simp add: exProps_def)
  from r i a vis s1 s2 show ?thesis by (intro conjI)
qed

end
